theory Spec2Isabelle
  imports Main
begin

section \<open>AgriAssist AI: the frontend script \<open>frontend/app.js\<close>\<close>

text \<open>
  The script is a page controller: event handlers that read and write properties of
  page elements, three asynchronous flows that call the backend with \<open>fetch\<close>, and a
  few pure formatters. The embedding keeps the script's own names. Every handler is a
  function from the page state to the page state; what a handler does to its
  environment (alerts, console output, network requests, file reads) is appended to a
  log kept in the state. An \<open>async\<close> function is split where it suspends: the part that
  runs when the handler is called (up to the first \<open>await\<close>), and the part that runs when
  the awaited promises have settled, which takes the way they settled as an argument.
\<close>

subsection \<open>JavaScript strings\<close>

text \<open>
  A JavaScript string is modelled as a \<^typ>\<open>string\<close>, one \<^typ>\<open>char\<close> for one
  UTF-16 code unit: the strings of the model are those whose code units are below
  \<open>0x100\<close> (ASCII and the Latin-1 supplement). On these code units the white space
  and the line terminators of \<open>String.prototype.trim\<close> and the case mapping of
  \<open>toUpperCase\<close> are ECMAScript's.
\<close>

definition is_line_terminator :: "char \<Rightarrow> bool" where
  "is_line_terminator c = (c = CHR 0x0A \<or> c = CHR 0x0D)"

text \<open>The white space of ECMAScript below \<open>0x100\<close>: tab, vertical tab, form feed,
  space and the no-break space \<open>U+00A0\<close>; \<open>trim\<close> removes these and the line
  terminators.\<close>

definition is_white_space :: "char \<Rightarrow> bool" where
  "is_white_space c =
     (c = CHR 0x09 \<or> c = CHR 0x0B \<or> c = CHR 0x0C \<or> c = CHR 0x20 \<or> c = CHR 0xA0
      \<or> is_line_terminator c)"

text \<open>\<open>s.trim()\<close>: white space and line terminators removed from both ends.\<close>

definition js_trim :: "string \<Rightarrow> string" where
  "js_trim s = rev (dropWhile is_white_space (rev (dropWhile is_white_space s)))"

text \<open>
  \<open>s.toUpperCase()\<close>. Below \<open>0x100\<close> the small letters that have a capital below
  \<open>0x100\<close> are \<open>a\<close> to \<open>z\<close> and \<open>U+00E0\<close> to \<open>U+00FE\<close> without the division sign
  \<open>U+00F7\<close>, each \<open>0x20\<close> above its capital. \<open>U+00DF\<close> becomes the two letters
  \<open>SS\<close>. The capitals of \<open>U+00B5\<close> and \<open>U+00FF\<close> are \<open>U+039C\<close> and \<open>U+0178\<close>, code
  units that no string of the model holds: there the result is \<open>None\<close>. Every other
  code unit is kept.
\<close>

definition small_letters :: string where
  "small_letters =
     ''abcdefghijklmnopqrstuvwxyz''
     @ [CHR 0xE0, CHR 0xE1, CHR 0xE2, CHR 0xE3, CHR 0xE4, CHR 0xE5, CHR 0xE6, CHR 0xE7,
       CHR 0xE8, CHR 0xE9, CHR 0xEA, CHR 0xEB, CHR 0xEC, CHR 0xED, CHR 0xEE, CHR 0xEF,
       CHR 0xF0, CHR 0xF1, CHR 0xF2, CHR 0xF3, CHR 0xF4, CHR 0xF5, CHR 0xF6, CHR 0xF8,
       CHR 0xF9, CHR 0xFA, CHR 0xFB, CHR 0xFC, CHR 0xFD, CHR 0xFE]"

definition capital_letters :: string where
  "capital_letters =
     ''ABCDEFGHIJKLMNOPQRSTUVWXYZ''
     @ [CHR 0xC0, CHR 0xC1, CHR 0xC2, CHR 0xC3, CHR 0xC4, CHR 0xC5, CHR 0xC6, CHR 0xC7,
       CHR 0xC8, CHR 0xC9, CHR 0xCA, CHR 0xCB, CHR 0xCC, CHR 0xCD, CHR 0xCE, CHR 0xCF,
       CHR 0xD0, CHR 0xD1, CHR 0xD2, CHR 0xD3, CHR 0xD4, CHR 0xD5, CHR 0xD6, CHR 0xD8,
       CHR 0xD9, CHR 0xDA, CHR 0xDB, CHR 0xDC, CHR 0xDD, CHR 0xDE]"

definition toUpperCase_char :: "char \<Rightarrow> string option" where
  "toUpperCase_char c =
     (if c = CHR 0xB5 \<or> c = CHR 0xFF then None
      else if c = CHR 0xDF then Some ''SS''
      else (case map_of (zip small_letters capital_letters) c of
              Some u \<Rightarrow> Some [u]
            | None \<Rightarrow> Some [c]))"

definition toUpperCase :: "string \<Rightarrow> string option" where
  "toUpperCase s = map_option concat (those (map toUpperCase_char s))"

text \<open>\<open>s.replace(/_/g, ' ')\<close> and \<open>s.replace(/\n/g, '<br>')\<close>: every occurrence of
  one character replaced.\<close>

definition replace_underscores :: "string \<Rightarrow> string" where
  "replace_underscores s = map (\<lambda>c. if c = CHR ''_'' then CHR '' '' else c) s"

definition replace_newlines :: "string \<Rightarrow> string" where
  "replace_newlines s = concat (map (\<lambda>c. if c = CHR 0x0A then ''<br>'' else [c]) s)"

text \<open>\<open>s.replace(/\n\n/g, '</p><p>')\<close>: the matches are taken from left to right and do
  not overlap.\<close>

fun replace_blank_lines :: "string \<Rightarrow> string" where
  "replace_blank_lines (a # b # cs) =
     (if a = CHR 0x0A \<and> b = CHR 0x0A then ''</p><p>'' @ replace_blank_lines cs
      else a # replace_blank_lines (b # cs))"
| "replace_blank_lines cs = cs"

text \<open>
  \<open>s.replace(/\*\*(.*?)\*\*/g, '<strong>$1</strong>')\<close>. \<open>find_close\<close> is the rest of
  the pattern after the opening \<open>**\<close>: the lazy \<open>.*?\<close> takes the fewest characters, none
  of them a line terminator, that bring it to a closing \<open>**\<close>; the result is the group
  and the text after the match. \<open>replace_bold\<close> tries the pattern at every position from
  left to right and goes on after a match.
\<close>

fun find_close :: "string \<Rightarrow> (string \<times> string) option" where
  "find_close (a # b # cs) =
     (if a = CHR ''*'' \<and> b = CHR ''*'' then Some ([], cs)
      else if is_line_terminator a then None
      else (case find_close (b # cs) of
              None \<Rightarrow> None
            | Some (grp, rest) \<Rightarrow> Some (a # grp, rest)))"
| "find_close cs = None"

definition match_bold :: "string \<Rightarrow> (string \<times> string) option" where
  "match_bold s =
     (case s of
        a # b # cs \<Rightarrow> if a = CHR ''*'' \<and> b = CHR ''*'' then find_close cs else None
      | _ \<Rightarrow> None)"

lemma find_close_shorter: "find_close s = Some (grp, rest) \<Longrightarrow> length rest < length s"
  by (induction s arbitrary: grp rule: find_close.induct)
     (auto split: if_splits option.splits)

lemma match_bold_shorter: "match_bold s = Some (grp, rest) \<Longrightarrow> length rest < length s"
  by (auto simp: match_bold_def split: list.splits if_splits dest: find_close_shorter)

function replace_bold :: "string \<Rightarrow> string" where
  "replace_bold [] = []"
| "replace_bold (c # cs) =
     (case match_bold (c # cs) of
        Some (grp, rest) \<Rightarrow> ''<strong>'' @ grp @ ''</strong>'' @ replace_bold rest
      | None \<Rightarrow> c # replace_bold cs)"
  by pat_completeness auto
termination replace_bold
  by (relation "measure length") (auto dest: match_bold_shorter)

text \<open>The decimal digits of a natural number, as string concatenation writes an
  integer.\<close>

definition digit :: "nat \<Rightarrow> char" where
  "digit n = ''0123456789'' ! n"

fun dec :: "nat \<Rightarrow> string" where
  "dec n = (if n < 10 then [digit n] else dec (n div 10) @ [digit (n mod 10)])"

declare dec.simps [simp del]

text \<open>A value that is a string or \<open>undefined\<close> (a property the object may lack), and
  its conversion by string concatenation and by a template literal.\<close>

definition js_String :: "string option \<Rightarrow> string" where
  "js_String v = (case v of None \<Rightarrow> ''undefined'' | Some t \<Rightarrow> t)"

subsection \<open>The page, the backend's payloads and the log of effects\<close>

text \<open>
  The elements of the page in document order, with what the tab controller reads and
  writes of them: the \<open>id\<close>, the class list and \<open>dataset.tab\<close>.
\<close>

record element =
  el_id :: "string option"
  el_classList :: "string list"
  el_dataset_tab :: "string option"

text \<open>A \<open>File\<close>: its name, its declared MIME type and its bytes.\<close>

record js_file =
  file_name :: string
  file_type :: string
  file_bytes :: string

text \<open>A \<open>fetch\<close> call: the URL, the method, the headers and the body.\<close>

datatype form_value = FormFile js_file | FormString string

datatype body = NoBody | FormData "(string \<times> form_value) list" | JsonObject "(string \<times> string) list"

record request =
  req_url :: string
  req_method :: string
  req_headers :: "(string \<times> string) list"
  req_body :: body

datatype js_error = TypeError string | SyntaxError string | NetworkError string

text \<open>
  What the handlers do to their environment, in the order they do it. \<open>ShowLoading\<close>
  records a call of \<open>showLoading\<close> with its argument.
\<close>

datatype effect =
    Alert string
  | ConsoleError js_error
  | Fetch request
  | ShowLoading bool
  | ScrollIntoView
  | PreventDefault
  | InputClick
  | ReadAsDataURL js_file
  | Uncaught js_error

text \<open>
  How the two awaited promises of a flow (\<open>fetch(...)\<close>, then \<open>response.json()\<close>) settle:
  the first rejects, or the second rejects, or the body parses to \<open>null\<close>, or it parses
  to a payload. Reading \<open>data.success\<close> of \<open>null\<close> throws inside the \<open>try\<close> block.
\<close>

datatype 'd outcome = FetchRejected js_error | JsonRejected js_error | ParsedNull | Parsed 'd

text \<open>
  Modelled from the spec: the payload types of the three endpoints, which the script
  does not declare. The spec gives
  \<open>{success: bool, analysis: {analysis: string} | string, error?: string}\<close>,
  \<open>{success: bool, response: string}\<close> and
  \<open>{success: bool, tips: string | mapping<string, string | sequence<string>>, error?: string}\<close>.
  A property that a payload may lack is an \<open>option\<close>. A mapping is the list of its
  entries in the order \<open>Object.entries\<close> yields them.
\<close>

datatype analysis_value = AnalysisText string | AnalysisObject "string option"

record analysis_data =
  analysis_success :: bool
  analysis_analysis :: "analysis_value option"
  analysis_error :: "string option"

record chat_data =
  chat_success :: bool
  chat_response :: "string option"

datatype tip_value = TipText string | TipList "string list"

datatype tips_value = TipsString string | TipsMapping "(string \<times> tip_value) list"

record tips_data =
  tips_success :: bool
  tips_tips :: "tips_value option"
  tips_error :: "string option"

text \<open>A transcript entry: the \<open>div\<close> that \<open>addMessageToChat\<close> creates.\<close>

record message_div =
  div_className :: string
  div_innerHTML :: string

text \<open>
  The page state: the two module variables, the node lists that \<open>initializeTabs\<close>
  captures (as positions in \<open>elements\<close>), and the properties the script reads or writes
  of the elements it looks up by a fixed id. The page is taken to contain each of those
  elements. Markup assigned to an \<open>innerHTML\<close> is kept as the string assigned; the
  \<open>innerHTML\<close> of the tips container is \<open>None\<close> when the markup assigned to it is not a
  string of the model.
  \<open>layout_scrollHeight\<close> is the browser's layout: the \<open>scrollHeight\<close> of the transcript
  for given children.
\<close>

record state =
  currentLanguage :: string
  sessionId :: string
  elements :: "element list"
  tabBtns :: "nat list"
  tabPanes :: "nat list"
  uploadArea_background :: string
  uploadArea_display :: string
  imageInput_files :: "js_file list"
  analyzeBtn_disabled :: bool
  imagePreview_display :: string
  previewImg_src :: string
  location_value :: string
  analysisResults_display :: string
  resultsContent_innerHTML :: string
  chatInput_value :: string
  chatMessages :: "message_div list"
  chatMessages_scrollTop :: nat
  layout_scrollHeight :: "message_div list \<Rightarrow> nat"
  cropSelect_value :: string
  seasonSelect_value :: string
  tipsResults_display :: string
  tipsContent_innerHTML :: "string option"
  langToggle_innerHTML :: string
  loadingOverlay_display :: string
  effects :: "effect list"

definition API_BASE :: string where
  "API_BASE = ''http://localhost:5000/api''"

definition emit :: "effect \<Rightarrow> state \<Rightarrow> state" where
  "emit e s = s\<lparr>effects := effects s @ [e]\<rparr>"

definition alert :: "string \<Rightarrow> state \<Rightarrow> state" where
  "alert msg s = emit (Alert msg) s"

definition console_error :: "js_error \<Rightarrow> state \<Rightarrow> state" where
  "console_error e s = emit (ConsoleError e) s"

definition fetch :: "request \<Rightarrow> state \<Rightarrow> state" where
  "fetch r s = emit (Fetch r) s"

text \<open>\<open>showLoading(show)\<close>: the overlay's \<open>style.display\<close> is \<open>flex\<close> or \<open>none\<close>.\<close>

definition showLoading :: "bool \<Rightarrow> state \<Rightarrow> state" where
  "showLoading show s =
     emit (ShowLoading show) (s\<lparr>loadingOverlay_display := (if show then ''flex'' else ''none'')\<rparr>)"

text \<open>
  \<open>try { body } catch (error) { handler } finally { fin }\<close>, for a body that either
  completes or throws: the body returns the error it threw, if any, with the state it
  left; the handler runs on that state; \<open>fin\<close> runs last in both cases.
\<close>

definition try_catch_finally ::
  "(state \<Rightarrow> js_error option \<times> state) \<Rightarrow> (js_error \<Rightarrow> state \<Rightarrow> state) \<Rightarrow> (state \<Rightarrow> state)
     \<Rightarrow> state \<Rightarrow> state" where
  "try_catch_finally body handler fin s =
     (case body s of
        (None, s') \<Rightarrow> fin s'
      | (Some error, s') \<Rightarrow> fin (handler error s'))"

subsection \<open>Tab management\<close>

text \<open>
  \<open>document.querySelectorAll('.cls')\<close> and \<open>document.getElementById(id)\<close> on the list of
  elements: the positions of the elements that carry the class, in document order, and
  the position of the first element with the id (\<open>null\<close> when there is none). An
  element whose \<open>id\<close> attribute is the empty string has no id, so the empty string
  finds nothing.
\<close>

definition querySelectorAll_class :: "string \<Rightarrow> element list \<Rightarrow> nat list" where
  "querySelectorAll_class cls es = filter (\<lambda>i. cls \<in> set (el_classList (es ! i))) [0..<length es]"

definition getElementById :: "string \<Rightarrow> element list \<Rightarrow> nat option" where
  "getElementById ident es =
     (if ident = [] then None
      else find (\<lambda>i. el_id (es ! i) = Some ident) [0..<length es])"

definition classList_remove :: "string \<Rightarrow> element \<Rightarrow> element" where
  "classList_remove cls e = e\<lparr>el_classList := filter (\<lambda>c. c \<noteq> cls) (el_classList e)\<rparr>"

definition classList_add :: "string \<Rightarrow> element \<Rightarrow> element" where
  "classList_add cls e =
     (if cls \<in> set (el_classList e) then e else e\<lparr>el_classList := el_classList e @ [cls]\<rparr>)"

text \<open>\<open>nodes.forEach(n => f(n))\<close> for an \<open>f\<close> that updates the node it is given.\<close>

definition forEach :: "nat list \<Rightarrow> (element \<Rightarrow> element) \<Rightarrow> element list \<Rightarrow> element list" where
  "forEach nodes f es = fold (\<lambda>i es'. es'[i := f (es' ! i)]) nodes es"

definition initializeTabs :: "state \<Rightarrow> state" where
  "initializeTabs s =
     s\<lparr>tabBtns := querySelectorAll_class ''tab-btn'' (elements s),
       tabPanes := querySelectorAll_class ''tab-pane'' (elements s)\<rparr>"

text \<open>
  The click handler of the tab button at position \<open>btn\<close>. A button without a
  \<open>data-tab\<close> attribute has \<open>dataset.tab\<close> undefined, which \<open>getElementById\<close> converts to
  the string \<open>undefined\<close>. When no element has the target id, \<open>getElementById\<close> returns
  \<open>null\<close> and reading its \<open>classList\<close> throws out of the handler: the changes made so
  far stay.
\<close>

definition tabBtn_click :: "nat \<Rightarrow> state \<Rightarrow> state" where
  "tabBtn_click btn s =
     (let targetTab = js_String (el_dataset_tab (elements s ! btn));
          es1 = forEach (tabBtns s) (classList_remove ''active'') (elements s);
          es2 = forEach (tabPanes s) (classList_remove ''active'') es1;
          es3 = es2[btn := classList_add ''active'' (es2 ! btn)]
      in case getElementById targetTab es3 of
           None \<Rightarrow>
             emit (Uncaught (TypeError ''Cannot read properties of null (reading classList)''))
               (s\<lparr>elements := es3\<rparr>)
         | Some pane \<Rightarrow> s\<lparr>elements := es3[pane := classList_add ''active'' (es3 ! pane)]\<rparr>)"

subsection \<open>Image upload\<close>

definition startsWith :: "string \<Rightarrow> string \<Rightarrow> bool" where
  "startsWith s p = (take (length p) s = p)"

text \<open>
  \<open>handleImageSelect(file)\<close> creates a reader, sets its \<open>onload\<close> and starts the read;
  \<open>reader_onload\<close> is the \<open>onload\<close> handler, run when the read has produced the data URL
  \<open>result\<close>.
\<close>

definition handleImageSelect :: "js_file \<Rightarrow> state \<Rightarrow> state" where
  "handleImageSelect file s = emit (ReadAsDataURL file) s"

definition reader_onload :: "string \<Rightarrow> state \<Rightarrow> state" where
  "reader_onload result s =
     s\<lparr>previewImg_src := result,
       uploadArea_display := ''none'',
       imagePreview_display := ''block'',
       analyzeBtn_disabled := False\<rparr>"

definition uploadArea_click :: "state \<Rightarrow> state" where
  "uploadArea_click s = emit InputClick s"

definition uploadArea_dragover :: "state \<Rightarrow> state" where
  "uploadArea_dragover s = (emit PreventDefault s)\<lparr>uploadArea_background := ''#d5f4e6''\<rparr>"

definition uploadArea_dragleave :: "state \<Rightarrow> state" where
  "uploadArea_dragleave s = s\<lparr>uploadArea_background := ''#ecf0f1''\<rparr>"

text \<open>The \<open>drop\<close> handler; \<open>files\<close> is \<open>e.dataTransfer.files\<close>.\<close>

definition uploadArea_drop :: "js_file list \<Rightarrow> state \<Rightarrow> state" where
  "uploadArea_drop files s =
     (let s1 = emit PreventDefault s
      in case files of
           [] \<Rightarrow> s1
         | file # _ \<Rightarrow>
             if startsWith (file_type file) ''image/'' then handleImageSelect file s1 else s1)"

text \<open>The \<open>change\<close> handler of the file input; \<open>e.target.files\<close> is the input's own
  file list, which the browser has set before the event.\<close>

definition imageInput_change :: "state \<Rightarrow> state" where
  "imageInput_change s =
     (case imageInput_files s of
        [] \<Rightarrow> s
      | file # _ \<Rightarrow> handleImageSelect file s)"

text \<open>The click handler of the remove button. Assigning the empty string to the
  \<open>value\<close> of a file input empties its file list.\<close>

definition removeImage_click :: "state \<Rightarrow> state" where
  "removeImage_click s =
     s\<lparr>imageInput_files := [],
       imagePreview_display := ''none'',
       uploadArea_display := ''block'',
       analyzeBtn_disabled := True\<rparr>"

text \<open>
  \<open>formatAnalysis(analysisData)\<close>. \<open>analysisData.analysis || analysisData\<close> throws when
  \<open>analysisData\<close> is undefined, is the inner text when that is a non-empty string, and
  is \<open>analysisData\<close> itself otherwise; \<open>.replace\<close> then throws unless that is a string.
\<close>

definition formatAnalysis :: "analysis_value option \<Rightarrow> js_error + string" where
  \<open>formatAnalysis analysisData =
     (let render = (\<lambda>analysis.
            ''<div class="analysis-text"><p>''
              @ replace_newlines (replace_blank_lines (replace_bold analysis))
              @ ''</p></div>'')
      in case analysisData of
           None \<Rightarrow> Inl (TypeError ''Cannot read properties of undefined (reading analysis)'')
         | Some (AnalysisText t) \<Rightarrow> Inr (render t)
         | Some (AnalysisObject inner) \<Rightarrow>
             (case inner of
                Some t \<Rightarrow>
                  if t \<noteq> [] then Inr (render t)
                  else Inl (TypeError ''analysis.replace is not a function'')
              | None \<Rightarrow> Inl (TypeError ''analysis.replace is not a function'')))\<close>

text \<open>
  \<open>analyzeCrop\<close> up to its first \<open>await\<close>: the result says whether the function is
  suspended on the request (\<open>True\<close>) or has returned.
\<close>

definition analyzeCrop_begin :: "state \<Rightarrow> state \<times> bool" where
  "analyzeCrop_begin s =
     (let location = (if location_value s = [] then ''Kenya'' else location_value s)
      in case imageInput_files s of
           [] \<Rightarrow> (alert ''Please select an image first'' s, False)
         | file # _ \<Rightarrow>
             (fetch \<lparr>req_url = API_BASE @ ''/analyze-crop'',
                     req_method = ''POST'',
                     req_headers = [],
                     req_body = FormData [(''image'', FormFile file),
                                          (''location'', FormString location),
                                          (''language'', FormString (currentLanguage s))]\<rparr>
                (showLoading True s),
              True))"

text \<open>\<open>analyzeCrop\<close> from the point where the two promises have settled.\<close>

definition analyzeCrop_resume :: "analysis_data outcome \<Rightarrow> state \<Rightarrow> state" where
  "analyzeCrop_resume settled =
     try_catch_finally
       (\<lambda>s. case settled of
               FetchRejected e \<Rightarrow> (Some e, s)
             | JsonRejected e \<Rightarrow> (Some e, s)
             | ParsedNull \<Rightarrow>
                 (Some (TypeError ''Cannot read properties of null (reading success)''), s)
             | Parsed data \<Rightarrow>
                 if analysis_success data then
                   (case formatAnalysis (analysis_analysis data) of
                      Inl e \<Rightarrow> (Some e, s)
                    | Inr html \<Rightarrow>
                        (None,
                         emit ScrollIntoView
                           (s\<lparr>resultsContent_innerHTML := html,
                              analysisResults_display := ''block''\<rparr>)))
                 else (None, alert (''Analysis failed: '' @ js_String (analysis_error data)) s))
       (\<lambda>error s. alert ''Failed to analyze image. Please try again.'' (console_error error s))
       (showLoading False)"

definition analyzeCrop :: "analysis_data outcome \<Rightarrow> state \<Rightarrow> state" where
  "analyzeCrop settled s =
     (case analyzeCrop_begin s of
        (s', True) \<Rightarrow> analyzeCrop_resume settled s'
      | (s', False) \<Rightarrow> s')"

subsection \<open>Chat\<close>

text \<open>
  \<open>addMessageToChat(message, sender)\<close>. \<open>create_messageDiv\<close> is the new \<open>div\<close> with
  its class name and its markup, the two template literals of the source;
  \<open>addMessageToChat\<close> appends it to the transcript and sets the transcript's
  \<open>scrollTop\<close> to its \<open>scrollHeight\<close>.
\<close>

definition create_messageDiv :: "string \<Rightarrow> string \<Rightarrow> message_div" where
  \<open>create_messageDiv message sender =
     (let icon = (if sender = ''bot'' then ''<i class="fas fa-robot"></i>''
                  else ''<i class="fas fa-user"></i>'')
      in \<lparr>div_className = ''message '' @ sender @ ''-message'',
          div_innerHTML =
            ''\<newline>        '' @ icon
            @ ''\<newline>        <div class="message-content">\<newline>            <p>''
            @ message
            @ ''</p>\<newline>        </div>\<newline>    ''\<rparr>)\<close>

definition addMessageToChat :: "string \<Rightarrow> string \<Rightarrow> state \<Rightarrow> state" where
  "addMessageToChat message sender s =
     (let messageDiv = create_messageDiv message sender;
          children = chatMessages s @ [messageDiv]
      in s\<lparr>chatMessages := children,
           chatMessages_scrollTop := layout_scrollHeight s children\<rparr>)"

text \<open>\<open>sendMessage\<close> up to its first \<open>await\<close>. The empty string is the only falsy
  string.\<close>

definition sendMessage_begin :: "state \<Rightarrow> state \<times> bool" where
  "sendMessage_begin s =
     (let message = js_trim (chatInput_value s)
      in if message = [] then (s, False)
         else
           (let s1 = addMessageToChat message ''user'' s;
                s2 = s1\<lparr>chatInput_value := []\<rparr>;
                s3 = showLoading True s2
            in (fetch \<lparr>req_url = API_BASE @ ''/chat'',
                       req_method = ''POST'',
                       req_headers = [(''Content-Type'', ''application/json'')],
                       req_body = JsonObject [(''message'', message),
                                              (''session_id'', sessionId s3),
                                              (''language'', currentLanguage s3)]\<rparr> s3,
                True)))"

text \<open>\<open>sendMessage\<close> from the point where the two promises have settled.\<close>

definition sendMessage_resume :: "chat_data outcome \<Rightarrow> state \<Rightarrow> state" where
  "sendMessage_resume settled =
     try_catch_finally
       (\<lambda>s. case settled of
               FetchRejected e \<Rightarrow> (Some e, s)
             | JsonRejected e \<Rightarrow> (Some e, s)
             | ParsedNull \<Rightarrow>
                 (Some (TypeError ''Cannot read properties of null (reading success)''), s)
             | Parsed data \<Rightarrow>
                 if chat_success data then
                   (None, addMessageToChat (js_String (chat_response data)) ''bot'' s)
                 else
                   (None,
                    addMessageToChat ''Sorry, I encountered an error. Please try again.'' ''bot'' s))
       (\<lambda>error s.
          addMessageToChat ''Connection error. Please check your internet and try again.'' ''bot''
            (console_error error s))
       (showLoading False)"

definition sendMessage :: "chat_data outcome \<Rightarrow> state \<Rightarrow> state" where
  "sendMessage settled s =
     (case sendMessage_begin s of
        (s', True) \<Rightarrow> sendMessage_resume settled s'
      | (s', False) \<Rightarrow> s')"

text \<open>The \<open>keypress\<close> handler of the chat input, up to the first \<open>await\<close> of the
  \<open>sendMessage\<close> it may call; \<open>key\<close> is \<open>e.key\<close>.\<close>

definition chatInput_keypress :: "string \<Rightarrow> state \<Rightarrow> state \<times> bool" where
  "chatInput_keypress key s = (if key = ''Enter'' then sendMessage_begin s else (s, False))"

subsection \<open>Farming tips\<close>

text \<open>
  \<open>formatTips(tips)\<close>. \<open>Object.entries\<close> throws on \<open>undefined\<close>. The loop appends one
  section for every entry; a value that is an array is joined with \<open><br>\<close>. Where the
  upper-cased key is not a string of the model, neither is the section nor the markup
  returned: they are \<open>None\<close>.
\<close>

definition join :: "string \<Rightarrow> string list \<Rightarrow> string" where
  "join sep xs = (case xs of [] \<Rightarrow> [] | x # rest \<Rightarrow> fold (\<lambda>y acc. acc @ sep @ y) rest x)"

definition tip_section :: "string \<Rightarrow> tip_value \<Rightarrow> string option" where
  \<open>tip_section key v =
     map_option
       (\<lambda>heading.
          ''\<newline>            <div class="tip-section">\<newline>                <h4>''
          @ heading
          @ ''</h4>\<newline>                <p>''
          @ (case v of TipList items \<Rightarrow> join ''<br>'' items | TipText t \<Rightarrow> t)
          @ ''</p>\<newline>            </div>\<newline>        '')
       (toUpperCase (replace_underscores key))\<close>

definition formatTips :: "tips_value option \<Rightarrow> js_error + string option" where
  \<open>formatTips tips =
     (case tips of
        Some (TipsString t) \<Rightarrow> Inr (Some (''<div class="tips-text">'' @ t @ ''</div>''))
      | Some (TipsMapping entries) \<Rightarrow>
          Inr (map_option (\<lambda>html. html @ ''</div>'')
                 (fold (\<lambda>(key, v) html.
                          case html of
                            None \<Rightarrow> None
                          | Some h \<Rightarrow> map_option (\<lambda>section. h @ section) (tip_section key v))
                    entries
                    (Some ''<div class="structured-tips">'')))
      | None \<Rightarrow> Inl (TypeError ''Cannot convert undefined or null to object''))\<close>

definition getFarmingTips_begin :: "state \<Rightarrow> state \<times> bool" where
  "getFarmingTips_begin s =
     (let crop = cropSelect_value s;
          season = seasonSelect_value s;
          s1 = showLoading True s
      in (fetch \<lparr>req_url = API_BASE @ ''/farming-tips?crop='' @ crop @ ''&season='' @ season
                             @ ''&language='' @ currentLanguage s1,
                 req_method = ''GET'',
                 req_headers = [],
                 req_body = NoBody\<rparr> s1,
          True))"

definition getFarmingTips_resume :: "tips_data outcome \<Rightarrow> state \<Rightarrow> state" where
  "getFarmingTips_resume settled =
     try_catch_finally
       (\<lambda>s. case settled of
               FetchRejected e \<Rightarrow> (Some e, s)
             | JsonRejected e \<Rightarrow> (Some e, s)
             | ParsedNull \<Rightarrow>
                 (Some (TypeError ''Cannot read properties of null (reading success)''), s)
             | Parsed data \<Rightarrow>
                 if tips_success data then
                   (case formatTips (tips_tips data) of
                      Inl e \<Rightarrow> (Some e, s)
                    | Inr html \<Rightarrow>
                        (None, s\<lparr>tipsContent_innerHTML := html, tipsResults_display := ''block''\<rparr>))
                 else (None, alert (''Failed to get tips: '' @ js_String (tips_error data)) s))
       (\<lambda>error s. alert ''Failed to fetch farming tips.'' (console_error error s))
       (showLoading False)"

definition getFarmingTips :: "tips_data outcome \<Rightarrow> state \<Rightarrow> state" where
  "getFarmingTips settled s =
     (case getFarmingTips_begin s of
        (s', True) \<Rightarrow> getFarmingTips_resume settled s'
      | (s', False) \<Rightarrow> s')"

subsection \<open>Language toggle and session id\<close>

definition langToggle_click :: "state \<Rightarrow> state" where
  \<open>langToggle_click s =
     (let s1 = s\<lparr>currentLanguage := (if currentLanguage s = ''en'' then ''sw'' else ''en'')\<rparr>
      in s1\<lparr>langToggle_innerHTML :=
              ''<i class="fas fa-globe"></i> ''
              @ (if currentLanguage s1 = ''en'' then ''English'' else ''Kiswahili'')\<rparr>)\<close>

text \<open>
  \<open>generateSessionId()\<close>. Its two readings of the environment are arguments: \<open>now\<close> is
  \<open>Date.now()\<close>, and \<open>random36\<close> is \<open>Math.random().toString(36)\<close>, the base-36 writing
  of a floating-point number in \<open>[0, 1)\<close>, which is not modelled further.
  \<open>substr(2, 9)\<close> is at most nine characters from position two.
\<close>

definition generateSessionId :: "nat \<Rightarrow> string \<Rightarrow> string" where
  "generateSessionId now random36 = ''session_'' @ dec now @ ''_'' @ take 9 (drop 2 random36)"

subsection \<open>The page's lifetime\<close>

text \<open>
  Loading the script: the two module variables are initialised (\<open>sessionId\<close> by the
  one call of \<open>generateSessionId\<close>), and on \<open>DOMContentLoaded\<close> the \<open>initialize\<close>
  functions run. \<open>initializeTabs\<close> captures the node lists; the others only register
  the handlers, which \<open>step\<close> dispatches. \<open>page\<close> is the page as its markup gives it. The
  registration of the service worker at the end of the script touches nothing of the
  page and is left out.
\<close>

definition page_load :: "nat \<Rightarrow> string \<Rightarrow> state \<Rightarrow> state" where
  "page_load now random36 page =
     initializeTabs
       (page\<lparr>currentLanguage := ''en'',
             sessionId := generateSessionId now random36,
             effects := []\<rparr>)"

text \<open>
  What can happen to the loaded page: the events the script has handlers for, the user
  editing a form control, and the settling of a read or of a request. A tab click names
  the button; the file picker's \<open>change\<close> carries the files picked.
\<close>

datatype event =
    TabBtnClick nat
  | UploadAreaClick
  | UploadAreaDragOver
  | UploadAreaDragLeave
  | UploadAreaDrop "js_file list"
  | ImageInputChange "js_file list"
  | ReaderLoad string
  | RemoveImageClick
  | AnalyzeBtnClick
  | AnalyzeSettled "analysis_data outcome"
  | SendBtnClick
  | ChatInputKeypress string
  | ChatSettled "chat_data outcome"
  | GetTipsBtnClick
  | TipsSettled "tips_data outcome"
  | LangToggleClick
  | EditChatInput string
  | EditLocation string
  | EditCropSelect string
  | EditSeasonSelect string

fun step :: "event \<Rightarrow> state \<Rightarrow> state" where
  "step (TabBtnClick btn) s = (if btn \<in> set (tabBtns s) then tabBtn_click btn s else s)"
| "step UploadAreaClick s = uploadArea_click s"
| "step UploadAreaDragOver s = uploadArea_dragover s"
| "step UploadAreaDragLeave s = uploadArea_dragleave s"
| "step (UploadAreaDrop files) s = uploadArea_drop files s"
| "step (ImageInputChange files) s = imageInput_change (s\<lparr>imageInput_files := files\<rparr>)"
| "step (ReaderLoad result) s = reader_onload result s"
| "step RemoveImageClick s = removeImage_click s"
| "step AnalyzeBtnClick s = fst (analyzeCrop_begin s)"
| "step (AnalyzeSettled settled) s = analyzeCrop_resume settled s"
| "step SendBtnClick s = fst (sendMessage_begin s)"
| "step (ChatInputKeypress key) s = fst (chatInput_keypress key s)"
| "step (ChatSettled settled) s = sendMessage_resume settled s"
| "step GetTipsBtnClick s = fst (getFarmingTips_begin s)"
| "step (TipsSettled settled) s = getFarmingTips_resume settled s"
| "step LangToggleClick s = langToggle_click s"
| "step (EditChatInput v) s = s\<lparr>chatInput_value := v\<rparr>"
| "step (EditLocation v) s = s\<lparr>location_value := v\<rparr>"
| "step (EditCropSelect v) s = s\<lparr>cropSelect_value := v\<rparr>"
| "step (EditSeasonSelect v) s = s\<lparr>seasonSelect_value := v\<rparr>"

definition run :: "event list \<Rightarrow> state \<Rightarrow> state" where
  "run evs s = fold step evs s"

subsection \<open>Observations used in the statements\<close>

text \<open>The effects that \<open>s'\<close> has logged since \<open>s\<close>, and the number of calls
  \<open>showLoading(false)\<close> among them.\<close>

definition effects_since :: "state \<Rightarrow> state \<Rightarrow> effect list" where
  "effects_since s s' = drop (length (effects s)) (effects s')"

definition loading_clears :: "state \<Rightarrow> state \<Rightarrow> nat" where
  "loading_clears s s' = count_list (effects_since s s') (ShowLoading False)"

definition is_Alert :: "effect \<Rightarrow> bool" where
  "is_Alert e = (case e of Alert _ \<Rightarrow> True | _ \<Rightarrow> False)"

definition is_Fetch :: "effect \<Rightarrow> bool" where
  "is_Fetch e = (case e of Fetch _ \<Rightarrow> True | _ \<Rightarrow> False)"

text \<open>The \<open>session_id\<close> fields of the chat requests in a log.\<close>

definition chat_session_ids :: "effect list \<Rightarrow> string list" where
  "chat_session_ids log =
     concat (map (\<lambda>e. case e of
                         Fetch r \<Rightarrow>
                           (case req_body r of
                              JsonObject props \<Rightarrow> map snd (filter (\<lambda>f. fst f = ''session_id'') props)
                            | _ \<Rightarrow> [])
                       | _ \<Rightarrow> []) log)"

text \<open>The elements among \<open>nodes\<close> that carry the class \<open>active\<close>.\<close>

definition active_nodes :: "nat list \<Rightarrow> element list \<Rightarrow> nat list" where
  "active_nodes nodes es = filter (\<lambda>i. ''active'' \<in> set (el_classList (es ! i))) nodes"

text \<open>Two lists of elements that differ at most in who carries the class \<open>active\<close>,
  and in that only at the positions \<open>nodes\<close>.\<close>

definition only_active_differs :: "nat list \<Rightarrow> element list \<Rightarrow> element list \<Rightarrow> bool" where
  "only_active_differs nodes es es' =
     (length es' = length es
      \<and> list_all
          (\<lambda>j. el_id (es' ! j) = el_id (es ! j)
               \<and> el_dataset_tab (es' ! j) = el_dataset_tab (es ! j)
               \<and> filter (\<lambda>c. c \<noteq> ''active'') (el_classList (es' ! j))
                   = filter (\<lambda>c. c \<noteq> ''active'') (el_classList (es ! j))
               \<and> (j \<in> set nodes \<or> es' ! j = es ! j))
          [0..<length es])"

text \<open>The element that a click on the button at \<open>btn\<close> looks up: the one whose id
  is the button's \<open>dataset.tab\<close>.\<close>

definition targetPane :: "state \<Rightarrow> nat \<Rightarrow> nat option" where
  "targetPane s btn = getElementById (js_String (el_dataset_tab (elements s ! btn))) (elements s)"

text \<open>
  A page whose tab buttons and panes match: the captured node lists are positions of
  the page, without repetition; no element is both a button and a pane; and for every
  button the element that its click looks up exists and is a pane.
\<close>

definition tabs_match :: "state \<Rightarrow> bool" where
  "tabs_match s =
     (distinct (tabBtns s) \<and> distinct (tabPanes s)
      \<and> list_all (\<lambda>i. i < length (elements s)) (tabBtns s)
      \<and> list_all (\<lambda>i. i < length (elements s)) (tabPanes s)
      \<and> list_all (\<lambda>b. b \<notin> set (tabPanes s)) (tabBtns s)
      \<and> list_all (\<lambda>b. case targetPane s b of
                         None \<Rightarrow> False
                       | Some p \<Rightarrow> p \<in> set (tabPanes s)) (tabBtns s))"


text \<open>
  A small page on which the statements below are instantiated: two tab buttons with
  their two panes, no image selected, an empty transcript.
\<close>

definition example_page :: state where
  "example_page =
     \<lparr>currentLanguage = ''en'',
      sessionId = [],
      elements =
        [\<lparr>el_id = None, el_classList = [''tab-btn'', ''active''], el_dataset_tab = Some ''analyze''\<rparr>,
         \<lparr>el_id = None, el_classList = [''tab-btn''], el_dataset_tab = Some ''chat''\<rparr>,
         \<lparr>el_id = Some ''analyze'', el_classList = [''tab-pane'', ''active''], el_dataset_tab = None\<rparr>,
         \<lparr>el_id = Some ''chat'', el_classList = [''tab-pane''], el_dataset_tab = None\<rparr>],
      tabBtns = [],
      tabPanes = [],
      uploadArea_background = ''#ecf0f1'',
      uploadArea_display = ''block'',
      imageInput_files = [],
      analyzeBtn_disabled = True,
      imagePreview_display = ''none'',
      previewImg_src = [],
      location_value = [],
      analysisResults_display = ''none'',
      resultsContent_innerHTML = [],
      chatInput_value = [],
      chatMessages = [],
      chatMessages_scrollTop = 0,
      layout_scrollHeight = (\<lambda>children. 40 * length children),
      cropSelect_value = ''maize'',
      seasonSelect_value = ''rainy'',
      tipsResults_display = ''none'',
      tipsContent_innerHTML = Some [],
      langToggle_innerHTML = ''English'',
      loadingOverlay_display = ''none'',
      effects = []\<rparr>"

definition example_text_file :: js_file where
  "example_text_file = \<lparr>file_name = ''notes.txt'', file_type = ''text/plain'', file_bytes = ''hi''\<rparr>"

definition example_image :: js_file where
  "example_image = \<lparr>file_name = ''leaf.png'', file_type = ''image/png'', file_bytes = ''PNG''\<rparr>"

text \<open>A page whose one tab button has an empty \<open>data-tab\<close> and whose one pane has an
  empty \<open>id\<close>.\<close>

definition empty_target_page :: state where
  "empty_target_page =
     initializeTabs
       (example_page
          \<lparr>elements :=
             [\<lparr>el_id = None, el_classList = [''tab-btn''], el_dataset_tab = Some []\<rparr>,
              \<lparr>el_id = Some [], el_classList = [''tab-pane'', ''active''], el_dataset_tab = None\<rparr>]\<rparr>)"

section \<open>Properties\<close>

subsection \<open>Auxiliary facts\<close>

lemma js_trim_empty_iff: "js_trim v = [] \<longleftrightarrow> list_all is_white_space v"
proof
  assume "js_trim v = []"
  then have all: "\<forall>c \<in> set (dropWhile is_white_space v). is_white_space c"
    by (simp add: js_trim_def)
  have "dropWhile is_white_space v = []"
  proof (rule ccontr)
    assume ne: "dropWhile is_white_space v \<noteq> []"
    then have "\<not> is_white_space (hd (dropWhile is_white_space v))"
      by (rule hd_dropWhile)
    moreover from ne have "hd (dropWhile is_white_space v) \<in> set (dropWhile is_white_space v)"
      by simp
    ultimately show False using all by blast
  qed
  then show "list_all is_white_space v"
    by (simp add: list_all_iff)
next
  assume "list_all is_white_space v"
  then have "dropWhile is_white_space v = []"
    by (simp add: list_all_iff)
  then show "js_trim v = []"
    by (simp only: js_trim_def dropWhile.simps rev.simps)
qed

lemma effects_emit [simp]: "effects (emit e s) = effects s @ [e]"
  by (simp add: emit_def)

lemma effects_addMessageToChat [simp]: "effects (addMessageToChat m sender s) = effects s"
  by (simp add: addMessageToChat_def Let_def)

lemma chatMessages_addMessageToChat [simp]:
  "chatMessages (addMessageToChat m sender s) = chatMessages s @ [create_messageDiv m sender]"
  by (simp add: addMessageToChat_def Let_def)

lemma effects_since_append [simp]: "effects s' = effects s @ es \<Longrightarrow> effects_since s s' = es"
  by (simp add: effects_since_def)

lemma sendMessage_resume_effects:
  "\<exists>es. effects (sendMessage_resume settled s) = effects s @ es @ [ShowLoading False]
        \<and> ShowLoading False \<notin> set es \<and> list_all (\<lambda>e. \<not> is_Alert e \<and> \<not> is_Fetch e) es"
  by (cases settled)
     (auto simp: sendMessage_resume_def try_catch_finally_def showLoading_def console_error_def
        emit_def is_Alert_def is_Fetch_def)

lemma analyzeCrop_resume_effects:
  "\<exists>es. effects (analyzeCrop_resume settled s) = effects s @ es @ [ShowLoading False]
        \<and> ShowLoading False \<notin> set es"
  by (cases settled)
     (auto simp: analyzeCrop_resume_def try_catch_finally_def showLoading_def console_error_def
        alert_def emit_def split: sum.splits)

lemma getFarmingTips_resume_effects:
  "\<exists>es. effects (getFarmingTips_resume settled s) = effects s @ es @ [ShowLoading False]
        \<and> ShowLoading False \<notin> set es"
  by (cases settled)
     (auto simp: getFarmingTips_resume_def try_catch_finally_def showLoading_def console_error_def
        alert_def emit_def split: sum.splits)

lemma create_messageDiv_innerHTML:
  "\<exists>pre post. \<forall>message.
     div_innerHTML (create_messageDiv message sender) = pre @ ''<p>'' @ message @ ''</p>'' @ post"
proof (intro exI allI)
  fix message
  show \<open>div_innerHTML (create_messageDiv message sender)
         = (''\<newline>        ''
            @ (if sender = ''bot'' then ''<i class="fas fa-robot"></i>''
               else ''<i class="fas fa-user"></i>'')
            @ ''\<newline>        <div class="message-content">\<newline>            '')
           @ ''<p>'' @ message @ ''</p>'' @ ''\<newline>        </div>\<newline>    ''\<close>
    by (simp add: create_messageDiv_def)
qed

lemma sendMessage_begin_nonblank:
  assumes "\<not> list_all is_white_space (chatInput_value s)"
  shows "sendMessage_begin s =
           (fetch \<lparr>req_url = API_BASE @ ''/chat'',
                   req_method = ''POST'',
                   req_headers = [(''Content-Type'', ''application/json'')],
                   req_body = JsonObject [(''message'', js_trim (chatInput_value s)),
                                          (''session_id'', sessionId s),
                                          (''language'', currentLanguage s)]\<rparr>
              (showLoading True
                 ((addMessageToChat (js_trim (chatInput_value s)) ''user'' s)\<lparr>chatInput_value := []\<rparr>)),
            True)"
proof -
  from assms have "js_trim (chatInput_value s) \<noteq> []"
    by (simp add: js_trim_empty_iff)
  then show ?thesis
    by (simp add: sendMessage_begin_def Let_def showLoading_def emit_def addMessageToChat_def)
qed


lemma is_white_space_iff:
  "is_white_space c
     \<longleftrightarrow> c \<in> set [CHR 0x09, CHR 0x0A, CHR 0x0B, CHR 0x0C, CHR 0x0D, CHR 0x20, CHR 0xA0]"
  by (auto simp: is_white_space_def is_line_terminator_def)

lemma rev_dropWhile_takeWhile:
  "xs = rev (dropWhile P (rev xs)) @ rev (takeWhile P (rev xs))"
proof -
  have "xs = rev (takeWhile P (rev xs) @ dropWhile P (rev xs))" by simp
  also have "\<dots> = rev (dropWhile P (rev xs)) @ rev (takeWhile P (rev xs))"
    by (rule rev_append)
  finally show ?thesis .
qed

lemma js_trim_decompose:
  "\<exists>lead trail. v = lead @ js_trim v @ trail
      \<and> list_all is_white_space lead \<and> list_all is_white_space trail"
proof -
  let ?d = "dropWhile is_white_space v"
  let ?lead = "takeWhile is_white_space v"
  let ?trail = "rev (takeWhile is_white_space (rev ?d))"
  have d: "?d = js_trim v @ ?trail"
    unfolding js_trim_def by (rule rev_dropWhile_takeWhile)
  have "v = ?lead @ ?d" by simp
  with d have "v = ?lead @ js_trim v @ ?trail" by simp
  moreover have "list_all is_white_space ?lead"
    by (auto simp: list_all_iff dest: set_takeWhileD)
  moreover have "list_all is_white_space ?trail"
    by (auto simp: list_all_iff dest: set_takeWhileD)
  ultimately show ?thesis by blast
qed

lemma js_trim_ends:
  assumes "js_trim v \<noteq> []"
  shows "\<not> is_white_space (hd (js_trim v)) \<and> \<not> is_white_space (last (js_trim v))"
proof -
  let ?d = "dropWhile is_white_space v"
  let ?e = "dropWhile is_white_space (rev ?d)"
  from assms have e: "?e \<noteq> []" by (simp add: js_trim_def)
  then have "\<not> is_white_space (hd ?e)" by (rule hd_dropWhile)
  moreover have "last (js_trim v) = hd ?e"
    using e by (simp add: js_trim_def last_rev)
  ultimately have l: "\<not> is_white_space (last (js_trim v))" by simp
  have dne: "?d \<noteq> []"
  proof
    assume "?d = []"
    then have "?e = []" by (simp only: rev.simps dropWhile.simps)
    with e show False by simp
  qed
  then have hd: "\<not> is_white_space (hd ?d)" by (rule hd_dropWhile)
  have "?d = js_trim v @ rev (takeWhile is_white_space (rev ?d))"
    unfolding js_trim_def by (rule rev_dropWhile_takeWhile)
  then have "hd ?d = hd (js_trim v @ rev (takeWhile is_white_space (rev ?d)))" by simp
  with assms have "hd ?d = hd (js_trim v)" by simp
  with hd l show ?thesis by simp
qed

lemma create_messageDiv_user:
  \<open>create_messageDiv message ''user''
     = \<lparr>div_className = ''message user-message'',
        div_innerHTML =
          ''\<newline>        <i class="fas fa-user"></i>''
          @ ''\<newline>        <div class="message-content">''
          @ ''\<newline>            <p>'' @ message @ ''</p>''
          @ ''\<newline>        </div>''
          @ ''\<newline>    ''\<rparr>\<close>
  by (simp add: create_messageDiv_def)

lemma create_messageDiv_bot:
  \<open>create_messageDiv message ''bot''
     = \<lparr>div_className = ''message bot-message'',
        div_innerHTML =
          ''\<newline>        <i class="fas fa-robot"></i>''
          @ ''\<newline>        <div class="message-content">''
          @ ''\<newline>            <p>'' @ message @ ''</p>''
          @ ''\<newline>        </div>''
          @ ''\<newline>    ''\<rparr>\<close>
  by (simp add: create_messageDiv_def)

subsection \<open>Chat: appending to the transcript\<close>

text \<open>
  Claim C10. For every message and every sender tag, \<open>addMessageToChat\<close> appends one
  entry whose markup is a frame that depends on the sender only, around the message
  exactly as given: nothing in the message is escaped, so markup in it (typed by the
  user or sent by the backend) reaches \<open>innerHTML\<close> as markup. The entry's class name
  is \<open>message <sender>-message\<close>, and after the append the transcript's \<open>scrollTop\<close> is
  the \<open>scrollHeight\<close> of the transcript with the new entry.
\<close>

theorem addMessageToChat_interpolates_verbatim:
  "\<exists>pre post. \<forall>message s.
       chatMessages (addMessageToChat message sender s)
         = chatMessages s @ [create_messageDiv message sender]
     \<and> div_innerHTML (create_messageDiv message sender) = pre @ ''<p>'' @ message @ ''</p>'' @ post
     \<and> div_className (create_messageDiv message sender) = ''message '' @ sender @ ''-message''
     \<and> chatMessages_scrollTop (addMessageToChat message sender s)
         = layout_scrollHeight s (chatMessages (addMessageToChat message sender s))"
proof -
  obtain pre post where
    "\<forall>message. div_innerHTML (create_messageDiv message sender)
                  = pre @ ''<p>'' @ message @ ''</p>'' @ post"
    using create_messageDiv_innerHTML by blast
  moreover have "div_className (create_messageDiv message sender) = ''message '' @ sender @ ''-message''"
    for message
    by (simp add: create_messageDiv_def)
  moreover have "chatMessages_scrollTop (addMessageToChat message sender s)
         = layout_scrollHeight s (chatMessages (addMessageToChat message sender s))" for message s
    by (simp add: addMessageToChat_def Let_def)
  ultimately show ?thesis
    using chatMessages_addMessageToChat by blast
qed

subsection \<open>Chat: sending\<close>





text \<open>
  Claim C6. When the chat request fails (either promise rejects, the body is \<open>null\<close>, or
  the payload has \<open>success\<close> false), the continuation of \<open>sendMessage\<close> appends exactly
  one entry: the \<open>bot\<close> entry (class \<open>message bot-message\<close>, robot icon) whose paragraph
  is one of two constants of the script. It does not depend on the error thrown or on
  anything in the payload. No alert is logged, and the overlay is hidden. For a whole
  call on a non-blank input the transcript grows by the user's entry with the trimmed
  text and that fallback entry.
\<close>

theorem sendMessage_failure_appends_fallback:
  assumes "case settled of Parsed data \<Rightarrow> \<not> chat_success data | _ \<Rightarrow> True"
  shows \<open>chatMessages (sendMessage_resume settled s)
           = chatMessages s
             @ [create_messageDiv
                  (case settled of
                     Parsed _ \<Rightarrow> ''Sorry, I encountered an error. Please try again.''
                   | _ \<Rightarrow> ''Connection error. Please check your internet and try again.'')
                  ''bot'']
       \<and> create_messageDiv reply ''bot''
           = \<lparr>div_className = ''message bot-message'',
              div_innerHTML =
                ''\<newline>        <i class="fas fa-robot"></i>''
                @ ''\<newline>        <div class="message-content">''
                @ ''\<newline>            <p>'' @ reply @ ''</p>''
                @ ''\<newline>        </div>''
                @ ''\<newline>    ''\<rparr>
       \<and> create_messageDiv message ''user''
           = \<lparr>div_className = ''message user-message'',
              div_innerHTML =
                ''\<newline>        <i class="fas fa-user"></i>''
                @ ''\<newline>        <div class="message-content">''
                @ ''\<newline>            <p>'' @ message @ ''</p>''
                @ ''\<newline>        </div>''
                @ ''\<newline>    ''\<rparr>
       \<and> filter is_Alert (effects_since s (sendMessage_resume settled s)) = []
       \<and> loadingOverlay_display (sendMessage_resume settled s) = ''none''
       \<and> (\<not> list_all is_white_space (chatInput_value s) \<longrightarrow>
            chatMessages (sendMessage settled s)
              = chatMessages s
                @ [create_messageDiv (js_trim (chatInput_value s)) ''user'',
                   create_messageDiv
                     (case settled of
                        Parsed _ \<Rightarrow> ''Sorry, I encountered an error. Please try again.''
                      | _ \<Rightarrow> ''Connection error. Please check your internet and try again.'')
                     ''bot'']
          \<and> filter is_Alert (effects_since s (sendMessage settled s)) = []
          \<and> js_trim (chatInput_value s) \<noteq> []
          \<and> (\<exists>lead trail. chatInput_value s = lead @ js_trim (chatInput_value s) @ trail
                \<and> list_all is_white_space lead \<and> list_all is_white_space trail)
          \<and> \<not> is_white_space (hd (js_trim (chatInput_value s)))
          \<and> \<not> is_white_space (last (js_trim (chatInput_value s))))
       \<and> (is_white_space c
            = (c \<in> set [CHR 0x09, CHR 0x0A, CHR 0x0B, CHR 0x0C, CHR 0x0D, CHR 0x20, CHR 0xA0]))\<close>
proof -
  let ?fallback = "case settled of
                     Parsed _ \<Rightarrow> ''Sorry, I encountered an error. Please try again.''
                   | _ \<Rightarrow> ''Connection error. Please check your internet and try again.''"
  have r: "chatMessages (sendMessage_resume settled s')
           = chatMessages s' @ [create_messageDiv ?fallback ''bot'']" for s'
    using assms
    by (cases settled)
       (simp_all add: sendMessage_resume_def try_catch_finally_def showLoading_def
          console_error_def emit_def)
  have a: "filter is_Alert (drop n (effects (sendMessage_resume settled s')))
             = filter is_Alert (drop n (effects s'))" for s' n
  proof -
    obtain es where "effects (sendMessage_resume settled s') = effects s' @ es @ [ShowLoading False]"
      and "list_all (\<lambda>e. \<not> is_Alert e \<and> \<not> is_Fetch e) es"
      using sendMessage_resume_effects [of settled s'] by blast
    then show ?thesis
      by (auto simp: filter_empty_conv list_all_iff is_Alert_def dest!: in_set_dropD)
  qed
  have d: "loadingOverlay_display (sendMessage_resume settled s) = ''none''"
    by (cases settled)
       (simp_all add: sendMessage_resume_def try_catch_finally_def showLoading_def
          console_error_def emit_def addMessageToChat_def Let_def)
  have full: "chatMessages (sendMessage settled s)
              = chatMessages s
                @ [create_messageDiv (js_trim (chatInput_value s)) ''user'',
                   create_messageDiv ?fallback ''bot'']
          \<and> filter is_Alert (effects_since s (sendMessage settled s)) = []
          \<and> js_trim (chatInput_value s) \<noteq> []
          \<and> (\<exists>lead trail. chatInput_value s = lead @ js_trim (chatInput_value s) @ trail
                \<and> list_all is_white_space lead \<and> list_all is_white_space trail)
          \<and> \<not> is_white_space (hd (js_trim (chatInput_value s)))
          \<and> \<not> is_white_space (last (js_trim (chatInput_value s)))"
    if nb: "\<not> list_all is_white_space (chatInput_value s)"
  proof -
    from nb have ne: "js_trim (chatInput_value s) \<noteq> []"
      by (simp add: js_trim_empty_iff)
    have "chatMessages (sendMessage settled s)
              = chatMessages s
                @ [create_messageDiv (js_trim (chatInput_value s)) ''user'',
                   create_messageDiv ?fallback ''bot'']
          \<and> filter is_Alert (effects_since s (sendMessage settled s)) = []"
      unfolding sendMessage_def sendMessage_begin_nonblank [OF nb] effects_since_def
      by (simp add: r a) (simp add: fetch_def showLoading_def emit_def is_Alert_def)
    with ne js_trim_decompose [of "chatInput_value s"] js_trim_ends [OF ne]
    show ?thesis by blast
  qed
  have al: "filter is_Alert (effects_since s (sendMessage_resume settled s)) = []"
    using a [of "length (effects s)" s] by (simp add: effects_since_def)
  show ?thesis
    using r [of s] al d full create_messageDiv_bot [of reply] create_messageDiv_user [of message]
      is_white_space_iff [of c]
    by blast
qed

theorem sendMessage_failure_appends_fallback_witness:
  \<open>(case FetchRejected (NetworkError ''offline'') :: chat_data outcome of
      Parsed data \<Rightarrow> \<not> chat_success data | _ \<Rightarrow> True)
   \<and> \<not> list_all is_white_space
         (chatInput_value (example_page\<lparr>chatInput_value := [CHR 0xA0] @ ''hello ''\<rparr>))
   \<and> chatMessages (sendMessage (FetchRejected (NetworkError ''offline''))
                      (example_page\<lparr>chatInput_value := [CHR 0xA0] @ ''hello ''\<rparr>))
       = [\<lparr>div_className = ''message user-message'',
           div_innerHTML =
             ''\<newline>        <i class="fas fa-user"></i>''
             @ ''\<newline>        <div class="message-content">''
             @ ''\<newline>            <p>hello</p>''
             @ ''\<newline>        </div>''
             @ ''\<newline>    ''\<rparr>,
          \<lparr>div_className = ''message bot-message'',
           div_innerHTML =
             ''\<newline>        <i class="fas fa-robot"></i>''
             @ ''\<newline>        <div class="message-content">''
             @ ''\<newline>            <p>Connection error. Please check your internet and try again.</p>''
             @ ''\<newline>        </div>''
             @ ''\<newline>    ''\<rparr>]
   \<and> filter is_Alert
         (effects_since (example_page\<lparr>chatInput_value := [CHR 0xA0] @ ''hello ''\<rparr>)
            (sendMessage (FetchRejected (NetworkError ''offline''))
               (example_page\<lparr>chatInput_value := [CHR 0xA0] @ ''hello ''\<rparr>))) = []\<close>
proof -
  let ?s = "example_page\<lparr>chatInput_value := [CHR 0xA0] @ ''hello ''\<rparr>"
  have f: "case FetchRejected (NetworkError ''offline'') :: chat_data outcome of
             Parsed data \<Rightarrow> \<not> chat_success data | _ \<Rightarrow> True"
    by simp
  have h: "\<not> list_all is_white_space (chatInput_value ?s)"
    by (simp add: is_white_space_def is_line_terminator_def)
  have t: "js_trim ([CHR 0xA0] @ ''hello '') = ''hello''"
    by (simp add: js_trim_def is_white_space_def is_line_terminator_def)
  have c: "chatMessages example_page = []"
    by (simp add: example_page_def)
  from sendMessage_failure_appends_fallback
         [where s = ?s, OF f] h t c
  show ?thesis by simp
qed

subsection \<open>The loading indicator\<close>

lemma loading_clears_resume:
  assumes "effects s1 = effects s @ pre" and "ShowLoading False \<notin> set pre"
    and "effects s' = effects s1 @ es @ [ShowLoading False]" and "ShowLoading False \<notin> set es"
  shows "loading_clears s s' = 1"
  using assms by (simp add: loading_clears_def effects_since_def count_list_0_iff)

lemma analyzeCrop_resume_clears:
  assumes "effects s1 = effects s @ pre" and "ShowLoading False \<notin> set pre"
  shows "loading_clears s (analyzeCrop_resume settled s1) = 1"
proof -
  obtain es where e: "effects (analyzeCrop_resume settled s1) = effects s1 @ es @ [ShowLoading False]"
    and n: "ShowLoading False \<notin> set es"
    using analyzeCrop_resume_effects [of settled s1] by blast
  show ?thesis
    by (rule loading_clears_resume [OF assms e n])
qed

lemma sendMessage_resume_clears:
  assumes "effects s1 = effects s @ pre" and "ShowLoading False \<notin> set pre"
  shows "loading_clears s (sendMessage_resume settled s1) = 1"
proof -
  obtain es where e: "effects (sendMessage_resume settled s1) = effects s1 @ es @ [ShowLoading False]"
    and n: "ShowLoading False \<notin> set es"
    using sendMessage_resume_effects [of settled s1] by blast
  show ?thesis
    by (rule loading_clears_resume [OF assms e n])
qed

lemma getFarmingTips_resume_clears:
  assumes "effects s1 = effects s @ pre" and "ShowLoading False \<notin> set pre"
  shows "loading_clears s (getFarmingTips_resume settled s1) = 1"
proof -
  obtain es where e: "effects (getFarmingTips_resume settled s1) = effects s1 @ es @ [ShowLoading False]"
    and n: "ShowLoading False \<notin> set es"
    using getFarmingTips_resume_effects [of settled s1] by blast
  show ?thesis
    by (rule loading_clears_resume [OF assms e n])
qed

lemma analyzeCrop_resume_hidden:
  "loadingOverlay_display (analyzeCrop_resume settled s) = ''none''
   \<and> last (effects (analyzeCrop_resume settled s)) = ShowLoading False"
  by (cases settled)
     (auto simp: analyzeCrop_resume_def try_catch_finally_def showLoading_def console_error_def
        alert_def emit_def split: sum.splits)

lemma sendMessage_resume_hidden:
  "loadingOverlay_display (sendMessage_resume settled s) = ''none''
   \<and> last (effects (sendMessage_resume settled s)) = ShowLoading False"
  by (cases settled)
     (auto simp: sendMessage_resume_def try_catch_finally_def showLoading_def console_error_def
        emit_def addMessageToChat_def Let_def)

lemma getFarmingTips_resume_hidden:
  "loadingOverlay_display (getFarmingTips_resume settled s) = ''none''
   \<and> last (effects (getFarmingTips_resume settled s)) = ShowLoading False"
  by (cases settled)
     (auto simp: getFarmingTips_resume_def try_catch_finally_def showLoading_def console_error_def
        alert_def emit_def split: sum.splits)

lemma analyzeCrop_begin_effects:
  assumes "snd (analyzeCrop_begin s)"
  shows "\<exists>r. effects (fst (analyzeCrop_begin s)) = effects s @ [ShowLoading True, Fetch r]"
  using assms
  by (auto simp: analyzeCrop_begin_def Let_def fetch_def showLoading_def emit_def alert_def
        split: list.splits)

lemma sendMessage_begin_effects:
  assumes "snd (sendMessage_begin s)"
  shows "\<exists>r. effects (fst (sendMessage_begin s)) = effects s @ [ShowLoading True, Fetch r]"
  using assms
  by (auto simp: sendMessage_begin_def Let_def fetch_def showLoading_def emit_def
        split: if_splits)

lemma getFarmingTips_begin_effects:
  "snd (getFarmingTips_begin s)
   \<and> (\<exists>r. effects (fst (getFarmingTips_begin s)) = effects s @ [ShowLoading True, Fetch r])"
  by (simp add: getFarmingTips_begin_def Let_def fetch_def showLoading_def emit_def)

lemma analyzeCrop_suspended:
  "snd (analyzeCrop_begin s) \<Longrightarrow> analyzeCrop settled s = analyzeCrop_resume settled (fst (analyzeCrop_begin s))"
  by (cases "analyzeCrop_begin s") (auto simp: analyzeCrop_def)

lemma sendMessage_suspended:
  "snd (sendMessage_begin s) \<Longrightarrow> sendMessage settled s = sendMessage_resume settled (fst (sendMessage_begin s))"
  by (cases "sendMessage_begin s") (auto simp: sendMessage_def)

lemma getFarmingTips_suspended:
  "getFarmingTips settled s = getFarmingTips_resume settled (fst (getFarmingTips_begin s))"
  using getFarmingTips_begin_effects [of s]
  by (cases "getFarmingTips_begin s") (auto simp: getFarmingTips_def)

text \<open>
  Claim C1. For each of the three flows and for every way its request settles (either
  promise rejects, or a payload with \<open>success\<close> true or false arrives, also when formatting
  a successful payload throws): the continuation of the flow, from whatever state the
  page is in when the promises settle, calls \<open>showLoading(false)\<close> exactly once, as the
  last thing it does, and leaves the overlay's display at \<open>none\<close>. A whole call that
  reaches its request (an image is selected; the chat input is not blank; always for
  the tips) calls \<open>showLoading(false)\<close> exactly once between its start and its end and
  ends with the overlay hidden.
\<close>

theorem loading_cleared_exactly_once:
  "(loading_clears s (analyzeCrop_resume a s) = 1
      \<and> last (effects (analyzeCrop_resume a s)) = ShowLoading False
      \<and> loadingOverlay_display (analyzeCrop_resume a s) = ''none'')
   \<and> (loading_clears s (sendMessage_resume c s) = 1
      \<and> last (effects (sendMessage_resume c s)) = ShowLoading False
      \<and> loadingOverlay_display (sendMessage_resume c s) = ''none'')
   \<and> (loading_clears s (getFarmingTips_resume t s) = 1
      \<and> last (effects (getFarmingTips_resume t s)) = ShowLoading False
      \<and> loadingOverlay_display (getFarmingTips_resume t s) = ''none'')
   \<and> (snd (analyzeCrop_begin s) \<longrightarrow>
        loading_clears s (analyzeCrop a s) = 1
      \<and> last (effects (analyzeCrop a s)) = ShowLoading False
      \<and> loadingOverlay_display (analyzeCrop a s) = ''none'')
   \<and> (snd (sendMessage_begin s) \<longrightarrow>
        loading_clears s (sendMessage c s) = 1
      \<and> last (effects (sendMessage c s)) = ShowLoading False
      \<and> loadingOverlay_display (sendMessage c s) = ''none'')
   \<and> (loading_clears s (getFarmingTips t s) = 1
      \<and> last (effects (getFarmingTips t s)) = ShowLoading False
      \<and> loadingOverlay_display (getFarmingTips t s) = ''none'')"
proof -
  have here: "effects s = effects s @ []" "ShowLoading False \<notin> set []"
    by simp_all
  have r1: "loading_clears s (analyzeCrop_resume a s) = 1"
    by (rule analyzeCrop_resume_clears [OF here])
  have r2: "loading_clears s (sendMessage_resume c s) = 1"
    by (rule sendMessage_resume_clears [OF here])
  have r3: "loading_clears s (getFarmingTips_resume t s) = 1"
    by (rule getFarmingTips_resume_clears [OF here])
  have f1: "loading_clears s (analyzeCrop a s) = 1" if b: "snd (analyzeCrop_begin s)"
  proof -
    obtain r where "effects (fst (analyzeCrop_begin s)) = effects s @ [ShowLoading True, Fetch r]"
      using analyzeCrop_begin_effects [OF b] by blast
    then show ?thesis
      unfolding analyzeCrop_suspended [OF b]
      by (rule analyzeCrop_resume_clears) simp
  qed
  have f2: "loading_clears s (sendMessage c s) = 1" if b: "snd (sendMessage_begin s)"
  proof -
    obtain r where "effects (fst (sendMessage_begin s)) = effects s @ [ShowLoading True, Fetch r]"
      using sendMessage_begin_effects [OF b] by blast
    then show ?thesis
      unfolding sendMessage_suspended [OF b]
      by (rule sendMessage_resume_clears) simp
  qed
  have f3: "loading_clears s (getFarmingTips t s) = 1"
  proof -
    obtain r where "effects (fst (getFarmingTips_begin s)) = effects s @ [ShowLoading True, Fetch r]"
      using getFarmingTips_begin_effects [of s] by blast
    then show ?thesis
      unfolding getFarmingTips_suspended
      by (rule getFarmingTips_resume_clears) simp
  qed
  show ?thesis
    using r1 r2 r3 f1 f2 f3
    by (simp add: analyzeCrop_resume_hidden sendMessage_resume_hidden getFarmingTips_resume_hidden
          analyzeCrop_suspended sendMessage_suspended getFarmingTips_suspended)
qed

theorem loading_cleared_exactly_once_witness:
  "snd (analyzeCrop_begin (example_page\<lparr>imageInput_files := [example_image], chatInput_value := ''hello''\<rparr>))
   \<and> snd (sendMessage_begin (example_page\<lparr>imageInput_files := [example_image], chatInput_value := ''hello''\<rparr>))
   \<and> loading_clears (example_page\<lparr>imageInput_files := [example_image], chatInput_value := ''hello''\<rparr>)
         (analyzeCrop (JsonRejected (SyntaxError ''Unexpected token''))
            (example_page\<lparr>imageInput_files := [example_image], chatInput_value := ''hello''\<rparr>)) = 1
   \<and> loadingOverlay_display
         (analyzeCrop (JsonRejected (SyntaxError ''Unexpected token''))
            (example_page\<lparr>imageInput_files := [example_image], chatInput_value := ''hello''\<rparr>)) = ''none''
   \<and> loading_clears (example_page\<lparr>imageInput_files := [example_image], chatInput_value := ''hello''\<rparr>)
         (sendMessage (Parsed \<lparr>chat_success = False, chat_response = None\<rparr>)
            (example_page\<lparr>imageInput_files := [example_image], chatInput_value := ''hello''\<rparr>)) = 1
   \<and> loadingOverlay_display
         (sendMessage (Parsed \<lparr>chat_success = False, chat_response = None\<rparr>)
            (example_page\<lparr>imageInput_files := [example_image], chatInput_value := ''hello''\<rparr>)) = ''none''"
proof -
  let ?s = "example_page\<lparr>imageInput_files := [example_image], chatInput_value := ''hello''\<rparr>"
  have h1: "snd (analyzeCrop_begin ?s)"
    by (simp add: analyzeCrop_begin_def Let_def)
  have "\<not> list_all is_white_space (chatInput_value ?s)"
    by (simp add: is_white_space_def is_line_terminator_def)
  then have h2: "snd (sendMessage_begin ?s)"
    by (simp add: sendMessage_begin_nonblank)
  from loading_cleared_exactly_once
         [of ?s "JsonRejected (SyntaxError ''Unexpected token'')"
             "Parsed \<lparr>chat_success = False, chat_response = None\<rparr>"] h1 h2
  show ?thesis by simp
qed

subsection \<open>The session id\<close>

lemma chat_session_ids_append [simp]:
  "chat_session_ids (xs @ ys) = chat_session_ids xs @ chat_session_ids ys"
  by (simp add: chat_session_ids_def)

lemma chat_session_ids_Nil [simp]: "chat_session_ids [] = []"
  by (simp add: chat_session_ids_def)

lemma tabBtn_click_globals:
  "sessionId (tabBtn_click btn s) = sessionId s
   \<and> currentLanguage (tabBtn_click btn s) = currentLanguage s
   \<and> (\<exists>new. effects (tabBtn_click btn s) = effects s @ new \<and> chat_session_ids new = [])"
  by (simp add: tabBtn_click_def Let_def emit_def chat_session_ids_def split: option.splits)

lemma sendMessage_begin_globals:
  "sessionId (fst (sendMessage_begin s)) = sessionId s
   \<and> currentLanguage (fst (sendMessage_begin s)) = currentLanguage s
   \<and> (\<exists>new. effects (fst (sendMessage_begin s)) = effects s @ new
          \<and> list_all (\<lambda>sid. sid = sessionId s) (chat_session_ids new))"
  by (simp add: sendMessage_begin_def Let_def fetch_def showLoading_def emit_def
        addMessageToChat_def chat_session_ids_def)

lemma analyzeCrop_begin_globals:
  "sessionId (fst (analyzeCrop_begin s)) = sessionId s
   \<and> currentLanguage (fst (analyzeCrop_begin s)) = currentLanguage s
   \<and> (\<exists>new. effects (fst (analyzeCrop_begin s)) = effects s @ new \<and> chat_session_ids new = [])"
  by (simp add: analyzeCrop_begin_def Let_def fetch_def showLoading_def emit_def alert_def
        chat_session_ids_def split: list.splits)

lemma getFarmingTips_begin_globals:
  "sessionId (fst (getFarmingTips_begin s)) = sessionId s
   \<and> currentLanguage (fst (getFarmingTips_begin s)) = currentLanguage s
   \<and> (\<exists>new. effects (fst (getFarmingTips_begin s)) = effects s @ new \<and> chat_session_ids new = [])"
  by (simp add: getFarmingTips_begin_def Let_def fetch_def showLoading_def emit_def
        chat_session_ids_def)

lemma sendMessage_resume_globals:
  "sessionId (sendMessage_resume settled s) = sessionId s
   \<and> currentLanguage (sendMessage_resume settled s) = currentLanguage s
   \<and> (\<exists>new. effects (sendMessage_resume settled s) = effects s @ new \<and> chat_session_ids new = [])"
  by (cases settled)
     (simp_all add: sendMessage_resume_def try_catch_finally_def showLoading_def console_error_def
        emit_def addMessageToChat_def Let_def chat_session_ids_def)

lemma analyzeCrop_resume_globals:
  "sessionId (analyzeCrop_resume settled s) = sessionId s
   \<and> currentLanguage (analyzeCrop_resume settled s) = currentLanguage s
   \<and> (\<exists>new. effects (analyzeCrop_resume settled s) = effects s @ new \<and> chat_session_ids new = [])"
  by (cases settled)
     (simp_all add: analyzeCrop_resume_def try_catch_finally_def showLoading_def console_error_def
        alert_def emit_def chat_session_ids_def split: sum.splits)

lemma getFarmingTips_resume_globals:
  "sessionId (getFarmingTips_resume settled s) = sessionId s
   \<and> currentLanguage (getFarmingTips_resume settled s) = currentLanguage s
   \<and> (\<exists>new. effects (getFarmingTips_resume settled s) = effects s @ new \<and> chat_session_ids new = [])"
  by (cases settled)
     (simp_all add: getFarmingTips_resume_def try_catch_finally_def showLoading_def console_error_def
        alert_def emit_def chat_session_ids_def split: sum.splits)

lemma step_globals:
  "sessionId (step e s) = sessionId s
   \<and> (e \<noteq> LangToggleClick \<longrightarrow> currentLanguage (step e s) = currentLanguage s)
   \<and> (\<exists>new. effects (step e s) = effects s @ new
          \<and> list_all (\<lambda>sid. sid = sessionId s) (chat_session_ids new))"
proof (cases e)
  case (TabBtnClick btn)
  then show ?thesis using tabBtn_click_globals [of btn s] by auto
next
  case (UploadAreaDrop files)
  then show ?thesis
    by (simp add: uploadArea_drop_def handleImageSelect_def Let_def emit_def chat_session_ids_def
          split: list.splits)
next
  case (ImageInputChange files)
  then show ?thesis
    by (simp add: imageInput_change_def handleImageSelect_def emit_def chat_session_ids_def
          split: list.splits)
next
  case AnalyzeBtnClick
  then show ?thesis using analyzeCrop_begin_globals [of s] by auto
next
  case (AnalyzeSettled settled)
  then show ?thesis using analyzeCrop_resume_globals [of settled s] by auto
next
  case SendBtnClick
  then show ?thesis using sendMessage_begin_globals [of s] by auto
next
  case (ChatInputKeypress key)
  then show ?thesis using sendMessage_begin_globals [of s] by (auto simp: chatInput_keypress_def)
next
  case (ChatSettled settled)
  then show ?thesis using sendMessage_resume_globals [of settled s] by auto
next
  case GetTipsBtnClick
  then show ?thesis using getFarmingTips_begin_globals [of s] by auto
next
  case (TipsSettled settled)
  then show ?thesis using getFarmingTips_resume_globals [of settled s] by auto
next
  case LangToggleClick
  then show ?thesis by (simp add: langToggle_click_def Let_def)
qed (simp_all add: uploadArea_click_def uploadArea_dragover_def uploadArea_dragleave_def
       reader_onload_def removeImage_click_def emit_def chat_session_ids_def)


lemma page_load_globals:
  "sessionId (page_load now random36 page) = generateSessionId now random36
   \<and> currentLanguage (page_load now random36 page) = ''en''
   \<and> effects (page_load now random36 page) = []"
  by (simp add: page_load_def initializeTabs_def)





subsection \<open>The language toggle\<close>

lemma run_currentLanguage:
  "currentLanguage s = ''en'' \<or> currentLanguage s = ''sw''
   \<Longrightarrow> currentLanguage (run evs s) = ''en'' \<or> currentLanguage (run evs s) = ''sw''"
proof (induction evs arbitrary: s)
  case Nil
  then show ?case by (simp add: run_def)
next
  case (Cons e evs)
  have "currentLanguage (step e s) = ''en'' \<or> currentLanguage (step e s) = ''sw''"
  proof (cases "e = LangToggleClick")
    case True
    then show ?thesis by (simp add: langToggle_click_def Let_def)
  next
    case False
    then show ?thesis using step_globals [of e s] Cons.prems by simp
  qed
  from Cons.IH [OF this] show ?case by (simp add: run_def)
qed

lemma requests_carry_language:
  "(\<not> list_all is_white_space (chatInput_value s) \<longrightarrow>
      (\<exists>r m sid. last (effects (fst (sendMessage_begin s))) = Fetch r
         \<and> req_body r = JsonObject [(''message'', m), (''session_id'', sid),
                                    (''language'', currentLanguage s)]))
   \<and> (imageInput_files s \<noteq> [] \<longrightarrow>
      (\<exists>r image location. last (effects (fst (analyzeCrop_begin s))) = Fetch r
         \<and> req_body r = FormData [(''image'', image), (''location'', location),
                                  (''language'', FormString (currentLanguage s))]))
   \<and> (\<exists>r pre. last (effects (fst (getFarmingTips_begin s))) = Fetch r
         \<and> req_url r = pre @ ''&language='' @ currentLanguage s)"
proof -
  have "\<exists>r m sid. last (effects (fst (sendMessage_begin s))) = Fetch r
         \<and> req_body r = JsonObject [(''message'', m), (''session_id'', sid),
                                    (''language'', currentLanguage s)]"
    if "\<not> list_all is_white_space (chatInput_value s)"
    by (simp add: sendMessage_begin_nonblank [OF that] fetch_def showLoading_def emit_def)
  moreover have "\<exists>r image location. last (effects (fst (analyzeCrop_begin s))) = Fetch r
         \<and> req_body r = FormData [(''image'', image), (''location'', location),
                                  (''language'', FormString (currentLanguage s))]"
    if "imageInput_files s \<noteq> []"
    using that
    by (cases "imageInput_files s")
       (simp_all add: analyzeCrop_begin_def Let_def fetch_def showLoading_def emit_def)
  moreover have "\<exists>r pre. last (effects (fst (getFarmingTips_begin s))) = Fetch r
         \<and> req_url r = pre @ ''&language='' @ currentLanguage s"
  proof (intro exI conjI)
    show "last (effects (fst (getFarmingTips_begin s)))
            = Fetch \<lparr>req_url = API_BASE @ ''/farming-tips?crop='' @ cropSelect_value s
                               @ ''&season='' @ seasonSelect_value s
                               @ ''&language='' @ currentLanguage s,
                     req_method = ''GET'', req_headers = [], req_body = NoBody\<rparr>"
      by (simp add: getFarmingTips_begin_def Let_def fetch_def showLoading_def emit_def)
    show "req_url \<lparr>req_url = API_BASE @ ''/farming-tips?crop='' @ cropSelect_value s
                               @ ''&season='' @ seasonSelect_value s
                               @ ''&language='' @ currentLanguage s,
                     req_method = ''GET'', req_headers = [], req_body = NoBody\<rparr>
            = (API_BASE @ ''/farming-tips?crop='' @ cropSelect_value s
                 @ ''&season='' @ seasonSelect_value s) @ ''&language='' @ currentLanguage s"
      by simp
  qed
  ultimately show ?thesis by blast
qed

lemma langToggle_click_frame:
  "langToggle_click s =
     s\<lparr>currentLanguage := currentLanguage (langToggle_click s),
       langToggle_innerHTML := langToggle_innerHTML (langToggle_click s)\<rparr>"
  by (simp add: langToggle_click_def Let_def)

text \<open>
  Claim C8. On a page whose language is \<open>en\<close> or \<open>sw\<close> (it is \<open>en\<close> when the script has
  loaded, and stays one of the two whatever happens), a click on the toggle turns \<open>en\<close>
  into \<open>sw\<close> and \<open>sw\<close> into \<open>en\<close>, and two clicks give the language back. After a click
  the toggle's label is the globe icon followed by \<open>English\<close> for \<open>en\<close> and \<open>Kiswahili\<close>
  for \<open>sw\<close>. The click changes the language variable and the label and nothing else:
  the transcript, the rendered analysis and tips and the log of requests already made
  are as before. A request that a flow sends after the click carries the new language:
  in the \<open>language\<close> field of the chat and analysis requests, and in the \<open>language\<close>
  parameter that ends the URL of the tips request.
\<close>

theorem langToggle_click_involution:
  assumes "currentLanguage s = ''en'' \<or> currentLanguage s = ''sw''"
  shows \<open>((currentLanguage s = ''en'' \<longrightarrow> currentLanguage (langToggle_click s) = ''sw'')
          \<and> (currentLanguage s = ''sw'' \<longrightarrow> currentLanguage (langToggle_click s) = ''en'')
          \<and> currentLanguage (langToggle_click (langToggle_click s)) = currentLanguage s
          \<and> langToggle_innerHTML (langToggle_click s)
              = ''<i class="fas fa-globe"></i> ''
                @ (if currentLanguage (langToggle_click s) = ''en'' then ''English'' else ''Kiswahili'')
          \<and> langToggle_click s =
              s\<lparr>currentLanguage := currentLanguage (langToggle_click s),
                langToggle_innerHTML := langToggle_innerHTML (langToggle_click s)\<rparr>
          \<and> chatMessages (langToggle_click s) = chatMessages s
          \<and> resultsContent_innerHTML (langToggle_click s) = resultsContent_innerHTML s
          \<and> tipsContent_innerHTML (langToggle_click s) = tipsContent_innerHTML s
          \<and> effects (langToggle_click s) = effects s
          \<and> (\<forall>evs. currentLanguage (run evs s) = ''en'' \<or> currentLanguage (run evs s) = ''sw''))
       \<and> ((\<not> list_all is_white_space (chatInput_value (langToggle_click s)) \<longrightarrow>
             (\<exists>r m sid. last (effects (fst (sendMessage_begin (langToggle_click s)))) = Fetch r
                \<and> req_body r = JsonObject [(''message'', m), (''session_id'', sid),
                                           (''language'', currentLanguage (langToggle_click s))]))
          \<and> (imageInput_files (langToggle_click s) \<noteq> [] \<longrightarrow>
             (\<exists>r image location. last (effects (fst (analyzeCrop_begin (langToggle_click s)))) = Fetch r
                \<and> req_body r = FormData [(''image'', image), (''location'', location),
                                         (''language'', FormString (currentLanguage (langToggle_click s)))]))
          \<and> (\<exists>r pre. last (effects (fst (getFarmingTips_begin (langToggle_click s)))) = Fetch r
                \<and> req_url r = pre @ ''&language='' @ currentLanguage (langToggle_click s)))\<close>
proof (rule conjI)
  have "\<forall>evs. currentLanguage (run evs s) = ''en'' \<or> currentLanguage (run evs s) = ''sw''"
    using run_currentLanguage [OF assms] by blast
  moreover have "langToggle_click s =
           s\<lparr>currentLanguage := currentLanguage (langToggle_click s),
             langToggle_innerHTML := langToggle_innerHTML (langToggle_click s)\<rparr>"
    by (rule langToggle_click_frame)
  moreover have "currentLanguage (langToggle_click (langToggle_click s)) = currentLanguage s"
    using assms by (auto simp: langToggle_click_def Let_def)
  ultimately show \<open>(currentLanguage s = ''en'' \<longrightarrow> currentLanguage (langToggle_click s) = ''sw'')
          \<and> (currentLanguage s = ''sw'' \<longrightarrow> currentLanguage (langToggle_click s) = ''en'')
          \<and> currentLanguage (langToggle_click (langToggle_click s)) = currentLanguage s
          \<and> langToggle_innerHTML (langToggle_click s)
              = ''<i class="fas fa-globe"></i> ''
                @ (if currentLanguage (langToggle_click s) = ''en'' then ''English'' else ''Kiswahili'')
          \<and> langToggle_click s =
              s\<lparr>currentLanguage := currentLanguage (langToggle_click s),
                langToggle_innerHTML := langToggle_innerHTML (langToggle_click s)\<rparr>
          \<and> chatMessages (langToggle_click s) = chatMessages s
          \<and> resultsContent_innerHTML (langToggle_click s) = resultsContent_innerHTML s
          \<and> tipsContent_innerHTML (langToggle_click s) = tipsContent_innerHTML s
          \<and> effects (langToggle_click s) = effects s
          \<and> (\<forall>evs. currentLanguage (run evs s) = ''en'' \<or> currentLanguage (run evs s) = ''sw'')\<close>
    by (simp add: langToggle_click_def Let_def)
next
  show "(\<not> list_all is_white_space (chatInput_value (langToggle_click s)) \<longrightarrow>
             (\<exists>r m sid. last (effects (fst (sendMessage_begin (langToggle_click s)))) = Fetch r
                \<and> req_body r = JsonObject [(''message'', m), (''session_id'', sid),
                                           (''language'', currentLanguage (langToggle_click s))]))
          \<and> (imageInput_files (langToggle_click s) \<noteq> [] \<longrightarrow>
             (\<exists>r image location. last (effects (fst (analyzeCrop_begin (langToggle_click s)))) = Fetch r
                \<and> req_body r = FormData [(''image'', image), (''location'', location),
                                         (''language'', FormString (currentLanguage (langToggle_click s)))]))
          \<and> (\<exists>r pre. last (effects (fst (getFarmingTips_begin (langToggle_click s)))) = Fetch r
                \<and> req_url r = pre @ ''&language='' @ currentLanguage (langToggle_click s))"
    by (rule requests_carry_language)
qed

theorem langToggle_click_involution_witness:
  \<open>(currentLanguage (page_load 1234 ''0.4fzyo82mvyr'' example_page) = ''en''
      \<or> currentLanguage (page_load 1234 ''0.4fzyo82mvyr'' example_page) = ''sw'')
   \<and> currentLanguage (langToggle_click (page_load 1234 ''0.4fzyo82mvyr'' example_page)) = ''sw''
   \<and> langToggle_innerHTML (langToggle_click (page_load 1234 ''0.4fzyo82mvyr'' example_page))
       = ''<i class="fas fa-globe"></i> Kiswahili''
   \<and> currentLanguage
         (langToggle_click (langToggle_click (page_load 1234 ''0.4fzyo82mvyr'' example_page))) = ''en''\<close>
proof -
  have h: "currentLanguage (page_load 1234 ''0.4fzyo82mvyr'' example_page) = ''en''"
    by (simp add: page_load_globals)
  then have "currentLanguage (page_load 1234 ''0.4fzyo82mvyr'' example_page) = ''en''
      \<or> currentLanguage (page_load 1234 ''0.4fzyo82mvyr'' example_page) = ''sw''"
    by simp
  from langToggle_click_involution [OF this] h
  show ?thesis by simp
qed

subsection \<open>Rendering the tips\<close>






















subsection \<open>Tab clicks\<close>

lemma forEach_length [simp]: "length (forEach nodes f es) = length es"
  unfolding forEach_def by (induction nodes arbitrary: es) simp_all

lemma forEach_nth:
  assumes "distinct nodes" and "j < length es"
  shows "forEach nodes f es ! j = (if j \<in> set nodes then f (es ! j) else es ! j)"
  using assms unfolding forEach_def
proof (induction nodes arbitrary: es)
  case Nil
  then show ?case by simp
next
  case (Cons i nodes)
  let ?es' = "es[i := f (es ! i)]"
  from Cons have ih: "fold (\<lambda>i es'. es'[i := f (es' ! i)]) nodes ?es' ! j
      = (if j \<in> set nodes then f (?es' ! j) else ?es' ! j)"
    by simp
  show ?case
  proof (cases "j = i")
    case True
    with Cons.prems have "j \<notin> set nodes" and "?es' ! j = f (es ! j)"
      by simp_all
    with ih True show ?thesis by simp
  next
    case False
    then have "?es' ! j = es ! j" by simp
    with ih False show ?thesis by simp
  qed
qed

lemma getElementById_cong:
  assumes "length es' = length es" and "\<And>i. i < length es \<Longrightarrow> el_id (es' ! i) = el_id (es ! i)"
  shows "getElementById t es' = getElementById t es"
  unfolding getElementById_def using assms by (auto intro: find_cong)

lemma el_id_classList [simp]:
  "el_id (classList_add c e) = el_id e" "el_id (classList_remove c e) = el_id e"
  "el_dataset_tab (classList_add c e) = el_dataset_tab e"
  "el_dataset_tab (classList_remove c e) = el_dataset_tab e"
  by (simp_all add: classList_add_def classList_remove_def)

lemma classList_add_remove_idem:
  "classList_add c (classList_remove c (classList_add c (classList_remove c e)))
     = classList_add c (classList_remove c e)"
  "classList_remove c (classList_remove c e) = classList_remove c e"
  by (simp_all add: classList_add_def classList_remove_def)

lemma active_classList:
  "''active'' \<in> set (el_classList (classList_add ''active'' e))"
  "''active'' \<notin> set (el_classList (classList_remove ''active'' e))"
  by (simp_all add: classList_add_def classList_remove_def)

lemma filter_eq_single: "distinct xs \<Longrightarrow> x \<in> set xs \<Longrightarrow> filter (\<lambda>j. j = x) xs = [x]"
  by (induction xs) (auto simp: filter_empty_conv)

text \<open>The page after a click, element by element: the clicked button and the pane it
  looks up carry \<open>active\<close>, the other buttons and panes have lost it, and every other
  element is as before.\<close>

lemma tabBtn_click_elements:
  assumes m: "tabs_match s" and b: "btn \<in> set (tabBtns s)"
  shows "\<exists>p. targetPane s btn = Some p \<and> p \<in> set (tabPanes s)
           \<and> tabBtn_click btn s = s\<lparr>elements := elements (tabBtn_click btn s)\<rparr>
           \<and> length (elements (tabBtn_click btn s)) = length (elements s)
           \<and> (\<forall>j < length (elements s).
                 elements (tabBtn_click btn s) ! j
                   = (if j = btn \<or> j = p
                      then classList_add ''active'' (classList_remove ''active'' (elements s ! j))
                      else if j \<in> set (tabBtns s) \<or> j \<in> set (tabPanes s)
                      then classList_remove ''active'' (elements s ! j)
                      else elements s ! j))"
proof -
  let ?es = "elements s"
  define es1 where "es1 = forEach (tabBtns s) (classList_remove ''active'') ?es"
  define es2 where "es2 = forEach (tabPanes s) (classList_remove ''active'') es1"
  define es3 where "es3 = es2[btn := classList_add ''active'' (es2 ! btn)]"
  from m have db: "distinct (tabBtns s)" and dp: "distinct (tabPanes s)"
    and disj: "\<And>i. i \<in> set (tabBtns s) \<Longrightarrow> i \<notin> set (tabPanes s)"
    and inb: "\<And>i. i \<in> set (tabBtns s) \<Longrightarrow> i < length ?es"
    and inp: "\<And>i. i \<in> set (tabPanes s) \<Longrightarrow> i < length ?es"
    by (auto simp: tabs_match_def list_all_iff)
  from m b obtain p where tp: "targetPane s btn = Some p" and pp: "p \<in> set (tabPanes s)"
    by (auto simp: tabs_match_def list_all_iff split: option.splits)
  have bl: "btn < length ?es" using b inb by blast
  have pl: "p < length ?es" using pp inp by blast
  have pb: "p \<noteq> btn" using b pp disj by blast
  have len: "length es1 = length ?es" "length es2 = length ?es" "length es3 = length ?es"
    by (simp_all add: es1_def es2_def es3_def)
  have n1: "es1 ! j = (if j \<in> set (tabBtns s) then classList_remove ''active'' (?es ! j) else ?es ! j)"
    if "j < length ?es" for j
    unfolding es1_def using that db by (simp add: forEach_nth)
  have n2: "es2 ! j = (if j \<in> set (tabBtns s) \<or> j \<in> set (tabPanes s)
                        then classList_remove ''active'' (?es ! j) else ?es ! j)"
    if "j < length ?es" for j
    unfolding es2_def using that dp disj [of j] by (simp add: forEach_nth len n1)
  have n3: "es3 ! j = (if j = btn then classList_add ''active'' (classList_remove ''active'' (?es ! j))
                        else if j \<in> set (tabBtns s) \<or> j \<in> set (tabPanes s)
                        then classList_remove ''active'' (?es ! j) else ?es ! j)"
    if "j < length ?es" for j
    unfolding es3_def using that b bl by (simp add: nth_list_update len n2)
  have "getElementById t es3 = getElementById t ?es" for t
    by (rule getElementById_cong) (simp_all add: n3 len)
  then have g: "getElementById (js_String (el_dataset_tab (?es ! btn))) es3 = Some p"
    using tp by (simp add: targetPane_def)
  have click: "tabBtn_click btn s = s\<lparr>elements := es3[p := classList_add ''active'' (es3 ! p)]\<rparr>"
    using g by (simp add: tabBtn_click_def Let_def es1_def es2_def es3_def)
  have "elements (tabBtn_click btn s) ! j
          = (if j = btn \<or> j = p
             then classList_add ''active'' (classList_remove ''active'' (?es ! j))
             else if j \<in> set (tabBtns s) \<or> j \<in> set (tabPanes s)
             then classList_remove ''active'' (?es ! j)
             else ?es ! j)" if "j < length ?es" for j
    using that pl pb pp by (simp add: click nth_list_update len n3)
  moreover have "length (elements (tabBtn_click btn s)) = length ?es"
    by (simp add: click len)
  moreover have "tabBtn_click btn s = s\<lparr>elements := elements (tabBtn_click btn s)\<rparr>"
    by (simp add: click)
  ultimately show ?thesis using tp pp by blast
qed

lemma tabBtn_click_active:
  assumes m: "tabs_match s" and b: "btn \<in> set (tabBtns s)"
  shows "\<exists>p. targetPane s btn = Some p
           \<and> active_nodes (tabBtns s) (elements (tabBtn_click btn s)) = [btn]
           \<and> active_nodes (tabPanes s) (elements (tabBtn_click btn s)) = [p]"
proof -
  from m have db: "distinct (tabBtns s)" and dp: "distinct (tabPanes s)"
    and disj: "\<And>i. i \<in> set (tabBtns s) \<Longrightarrow> i \<notin> set (tabPanes s)"
    and inb: "\<And>i. i \<in> set (tabBtns s) \<Longrightarrow> i < length (elements s)"
    and inp: "\<And>i. i \<in> set (tabPanes s) \<Longrightarrow> i < length (elements s)"
    by (auto simp: tabs_match_def list_all_iff)
  obtain p where tp: "targetPane s btn = Some p" and pp: "p \<in> set (tabPanes s)"
    and nth: "\<And>j. j < length (elements s) \<Longrightarrow>
                 elements (tabBtn_click btn s) ! j
                   = (if j = btn \<or> j = p
                      then classList_add ''active'' (classList_remove ''active'' (elements s ! j))
                      else if j \<in> set (tabBtns s) \<or> j \<in> set (tabPanes s)
                      then classList_remove ''active'' (elements s ! j)
                      else elements s ! j)"
    using tabBtn_click_elements [OF m b] by blast
  have "(''active'' \<in> set (el_classList (elements (tabBtn_click btn s) ! j))) = (j = btn)"
    if "j \<in> set (tabBtns s)" for j
    using that inb [OF that] disj [OF that] pp by (auto simp: nth active_classList)
  then have "active_nodes (tabBtns s) (elements (tabBtn_click btn s))
               = filter (\<lambda>j. j = btn) (tabBtns s)"
    unfolding active_nodes_def by (intro filter_cong) simp_all
  then have 1: "active_nodes (tabBtns s) (elements (tabBtn_click btn s)) = [btn]"
    by (simp add: filter_eq_single [OF db b])
  have "(''active'' \<in> set (el_classList (elements (tabBtn_click btn s) ! j))) = (j = p)"
    if "j \<in> set (tabPanes s)" for j
    using that inp [OF that] disj [OF b] by (auto simp: nth active_classList)
  then have "active_nodes (tabPanes s) (elements (tabBtn_click btn s))
               = filter (\<lambda>j. j = p) (tabPanes s)"
    unfolding active_nodes_def by (intro filter_cong) simp_all
  then have 2: "active_nodes (tabPanes s) (elements (tabBtn_click btn s)) = [p]"
    by (simp add: filter_eq_single [OF dp pp])
  from tp 1 2 show ?thesis by blast
qed

lemma tabBtn_click_preserves:
  assumes m: "tabs_match s" and b: "btn \<in> set (tabBtns s)"
  shows "tabBtns (tabBtn_click btn s) = tabBtns s
       \<and> tabPanes (tabBtn_click btn s) = tabPanes s
       \<and> (\<forall>c \<in> set (tabBtns s). targetPane (tabBtn_click btn s) c = targetPane s c)
       \<and> tabs_match (tabBtn_click btn s)"
proof -
  let ?s' = "tabBtn_click btn s"
  from m have inb: "\<And>i. i \<in> set (tabBtns s) \<Longrightarrow> i < length (elements s)"
    by (auto simp: tabs_match_def list_all_iff)
  obtain p where eq: "?s' = s\<lparr>elements := elements ?s'\<rparr>"
    and len: "length (elements ?s') = length (elements s)"
    and nth: "\<And>j. j < length (elements s) \<Longrightarrow>
                 elements ?s' ! j
                   = (if j = btn \<or> j = p
                      then classList_add ''active'' (classList_remove ''active'' (elements s ! j))
                      else if j \<in> set (tabBtns s) \<or> j \<in> set (tabPanes s)
                      then classList_remove ''active'' (elements s ! j)
                      else elements s ! j)"
    using tabBtn_click_elements [OF m b] by blast
  have tb: "tabBtns ?s' = tabBtns s" and tps: "tabPanes ?s' = tabPanes s"
    by (subst eq, simp)+
  have ids: "el_id (elements ?s' ! j) = el_id (elements s ! j)"
    and tabs: "el_dataset_tab (elements ?s' ! j) = el_dataset_tab (elements s ! j)"
    if "j < length (elements s)" for j
    using that by (simp_all add: nth)
  have g: "getElementById t (elements ?s') = getElementById t (elements s)" for t
    by (rule getElementById_cong [OF len ids])
  have tgt: "targetPane ?s' c = targetPane s c" if "c \<in> set (tabBtns s)" for c
    using inb [OF that] by (simp add: targetPane_def g tabs)
  have "tabs_match ?s'"
    using m tgt by (simp add: tabs_match_def tb tps len list_all_iff cong: option.case_cong)
  with tb tps tgt show ?thesis by blast
qed

lemma tabBtn_click_idem:
  assumes m: "tabs_match s" and b: "btn \<in> set (tabBtns s)"
  shows "tabBtn_click btn (tabBtn_click btn s) = tabBtn_click btn s"
proof -
  let ?s' = "tabBtn_click btn s"
  let ?s'' = "tabBtn_click btn ?s'"
  obtain p where tp: "targetPane s btn = Some p"
    and eq: "?s' = s\<lparr>elements := elements ?s'\<rparr>"
    and len: "length (elements ?s') = length (elements s)"
    and nth: "\<And>j. j < length (elements s) \<Longrightarrow>
                 elements ?s' ! j
                   = (if j = btn \<or> j = p
                      then classList_add ''active'' (classList_remove ''active'' (elements s ! j))
                      else if j \<in> set (tabBtns s) \<or> j \<in> set (tabPanes s)
                      then classList_remove ''active'' (elements s ! j)
                      else elements s ! j)"
    using tabBtn_click_elements [OF m b] by blast
  from tabBtn_click_preserves [OF m b]
  have tb: "tabBtns ?s' = tabBtns s" and tps: "tabPanes ?s' = tabPanes s"
    and tgt: "targetPane ?s' btn = targetPane s btn" and m': "tabs_match ?s'"
    using b by blast+
  from b tb have b': "btn \<in> set (tabBtns ?s')" by simp
  obtain p' where tp': "targetPane ?s' btn = Some p'"
    and eq': "?s'' = ?s'\<lparr>elements := elements ?s''\<rparr>"
    and len': "length (elements ?s'') = length (elements ?s')"
    and nth': "\<And>j. j < length (elements ?s') \<Longrightarrow>
                 elements ?s'' ! j
                   = (if j = btn \<or> j = p'
                      then classList_add ''active'' (classList_remove ''active'' (elements ?s' ! j))
                      else if j \<in> set (tabBtns ?s') \<or> j \<in> set (tabPanes ?s')
                      then classList_remove ''active'' (elements ?s' ! j)
                      else elements ?s' ! j)"
    using tabBtn_click_elements [OF m' b'] by blast
  from tp tp' tgt have p': "p' = p" by simp
  have "elements ?s'' = elements ?s'"
  proof (rule nth_equalityI)
    show "length (elements ?s'') = length (elements ?s')" by (rule len')
  next
    fix j assume "j < length (elements ?s'')"
    then have j: "j < length (elements s)" by (simp add: len len')
    then have j': "j < length (elements ?s')" by (simp add: len)
    show "elements ?s'' ! j = elements ?s' ! j"
      unfolding nth' [OF j'] p' tb tps
      by (simp add: nth [OF j] classList_add_remove_idem)
  qed
  with eq' have "?s'' = ?s'\<lparr>elements := elements ?s'\<rparr>" by simp
  then show ?thesis by simp
qed

lemma run_append: "run (evs @ evs') s = run evs' (run evs s)"
  by (simp add: run_def)

lemma run_tab_clicks_preserves:
  assumes "tabs_match s" and "list_all (\<lambda>b. b \<in> set (tabBtns s)) clicks"
  shows "tabBtns (run (map TabBtnClick clicks) s) = tabBtns s
       \<and> tabPanes (run (map TabBtnClick clicks) s) = tabPanes s
       \<and> (\<forall>c \<in> set (tabBtns s). targetPane (run (map TabBtnClick clicks) s) c = targetPane s c)
       \<and> tabs_match (run (map TabBtnClick clicks) s)"
  using assms
proof (induction clicks arbitrary: s)
  case Nil
  then show ?case by (simp add: run_def)
next
  case (Cons b clicks)
  let ?s1 = "tabBtn_click b s"
  from Cons.prems have b: "b \<in> set (tabBtns s)"
    and rest: "list_all (\<lambda>b. b \<in> set (tabBtns s)) clicks"
    by simp_all
  from tabBtn_click_preserves [OF Cons.prems(1) b]
  have tb: "tabBtns ?s1 = tabBtns s" and tps: "tabPanes ?s1 = tabPanes s"
    and tgt: "\<forall>c \<in> set (tabBtns s). targetPane ?s1 c = targetPane s c"
    and m1: "tabs_match ?s1"
    by blast+
  from rest tb have "list_all (\<lambda>b. b \<in> set (tabBtns ?s1)) clicks" by simp
  from Cons.IH [OF m1 this] tb tps tgt
  have "tabBtns (run (map TabBtnClick clicks) ?s1) = tabBtns s
       \<and> tabPanes (run (map TabBtnClick clicks) ?s1) = tabPanes s
       \<and> (\<forall>c \<in> set (tabBtns s). targetPane (run (map TabBtnClick clicks) ?s1) c = targetPane s c)
       \<and> tabs_match (run (map TabBtnClick clicks) ?s1)"
    by simp
  moreover have "run (map TabBtnClick (b # clicks)) s = run (map TabBtnClick clicks) ?s1"
    using b by (simp add: run_def)
  ultimately show ?case by simp
qed

lemma only_active_differs_refl: "only_active_differs nodes es es"
  by (simp add: only_active_differs_def list_all_iff)

lemma only_active_differs_trans:
  "only_active_differs nodes es es' \<Longrightarrow> only_active_differs nodes es' es''
     \<Longrightarrow> only_active_differs nodes es es''"
proof -
  assume a: "only_active_differs nodes es es'" and b: "only_active_differs nodes es' es''"
  from a have la: "length es' = length es"
    and pa: "\<And>j. j < length es \<Longrightarrow>
               el_id (es' ! j) = el_id (es ! j)
             \<and> el_dataset_tab (es' ! j) = el_dataset_tab (es ! j)
             \<and> filter (\<lambda>c. c \<noteq> ''active'') (el_classList (es' ! j))
                 = filter (\<lambda>c. c \<noteq> ''active'') (el_classList (es ! j))
             \<and> (j \<in> set nodes \<or> es' ! j = es ! j)"
    by (simp_all add: only_active_differs_def list_all_iff)
  from b la have lb: "length es'' = length es"
    and pb: "\<And>j. j < length es \<Longrightarrow>
               el_id (es'' ! j) = el_id (es' ! j)
             \<and> el_dataset_tab (es'' ! j) = el_dataset_tab (es' ! j)
             \<and> filter (\<lambda>c. c \<noteq> ''active'') (el_classList (es'' ! j))
                 = filter (\<lambda>c. c \<noteq> ''active'') (el_classList (es' ! j))
             \<and> (j \<in> set nodes \<or> es'' ! j = es' ! j)"
    by (simp_all add: only_active_differs_def list_all_iff)
  have "el_id (es'' ! j) = el_id (es ! j)
      \<and> el_dataset_tab (es'' ! j) = el_dataset_tab (es ! j)
      \<and> filter (\<lambda>c. c \<noteq> ''active'') (el_classList (es'' ! j))
          = filter (\<lambda>c. c \<noteq> ''active'') (el_classList (es ! j))
      \<and> (j \<in> set nodes \<or> es'' ! j = es ! j)" if "j < length es" for j
    using pa [OF that] pb [OF that] by auto
  with lb show ?thesis
    by (simp add: only_active_differs_def list_all_iff)
qed

lemma classList_other_classes:
  "filter (\<lambda>c. c \<noteq> ''active'') (el_classList (classList_remove ''active'' e))
     = filter (\<lambda>c. c \<noteq> ''active'') (el_classList e)"
  "filter (\<lambda>c. c \<noteq> ''active'') (el_classList (classList_add ''active'' e))
     = filter (\<lambda>c. c \<noteq> ''active'') (el_classList e)"
  by (simp_all add: classList_remove_def classList_add_def)

lemma tabBtn_click_frame:
  assumes m: "tabs_match s" and b: "btn \<in> set (tabBtns s)"
  shows "only_active_differs (tabBtns s @ tabPanes s) (elements s) (elements (tabBtn_click btn s))"
proof -
  obtain p where pp: "p \<in> set (tabPanes s)"
    and len: "length (elements (tabBtn_click btn s)) = length (elements s)"
    and nth: "\<And>j. j < length (elements s) \<Longrightarrow>
                 elements (tabBtn_click btn s) ! j
                   = (if j = btn \<or> j = p
                      then classList_add ''active'' (classList_remove ''active'' (elements s ! j))
                      else if j \<in> set (tabBtns s) \<or> j \<in> set (tabPanes s)
                      then classList_remove ''active'' (elements s ! j)
                      else elements s ! j)"
    using tabBtn_click_elements [OF m b] by blast
  show ?thesis
    using b pp by (auto simp: only_active_differs_def list_all_iff len nth classList_other_classes)
qed

lemma run_tab_clicks_frame:
  assumes "tabs_match s" and "list_all (\<lambda>b. b \<in> set (tabBtns s)) clicks"
  shows "only_active_differs (tabBtns s @ tabPanes s) (elements s)
           (elements (run (map TabBtnClick clicks) s))"
  using assms
proof (induction clicks arbitrary: s)
  case Nil
  show ?case by (simp add: run_def only_active_differs_refl)
next
  case (Cons b clicks)
  let ?s1 = "tabBtn_click b s"
  from Cons.prems have b: "b \<in> set (tabBtns s)"
    and rest: "list_all (\<lambda>b. b \<in> set (tabBtns s)) clicks"
    by simp_all
  from tabBtn_click_preserves [OF Cons.prems(1) b]
  have tb: "tabBtns ?s1 = tabBtns s" and tps: "tabPanes ?s1 = tabPanes s" and m1: "tabs_match ?s1"
    by blast+
  from rest tb have "list_all (\<lambda>b. b \<in> set (tabBtns ?s1)) clicks" by simp
  from Cons.IH [OF m1 this]
  have "only_active_differs (tabBtns s @ tabPanes s) (elements ?s1)
          (elements (run (map TabBtnClick clicks) ?s1))"
    by (simp add: tb tps)
  with tabBtn_click_frame [OF Cons.prems(1) b]
  have "only_active_differs (tabBtns s @ tabPanes s) (elements s)
          (elements (run (map TabBtnClick clicks) ?s1))"
    by (rule only_active_differs_trans)
  moreover have "run (map TabBtnClick (b # clicks)) s = run (map TabBtnClick clicks) ?s1"
    using b by (simp add: run_def)
  ultimately show ?case by simp
qed

lemma getElementById_Some:
  "getElementById ident es = Some i \<longleftrightarrow>
     ident \<noteq> [] \<and> i < length es \<and> el_id (es ! i) = Some ident
     \<and> (\<forall>j<i. el_id (es ! j) \<noteq> Some ident)"
  by (auto simp: getElementById_def find_Some_iff)

lemma getElementById_None:
  "getElementById ident es = None \<longleftrightarrow>
     ident = [] \<or> (\<forall>i<length es. el_id (es ! i) \<noteq> Some ident)"
  by (auto simp: getElementById_def find_None_iff)

lemma initializeTabs_nodes:
  "tabBtns (initializeTabs s)
     = filter (\<lambda>i. ''tab-btn'' \<in> set (el_classList (elements s ! i))) [0..<length (elements s)]
   \<and> tabPanes (initializeTabs s)
     = filter (\<lambda>i. ''tab-pane'' \<in> set (el_classList (elements s ! i))) [0..<length (elements s)]
   \<and> elements (initializeTabs s) = elements s"
  by (simp add: initializeTabs_def querySelectorAll_class_def)

text \<open>
  Claim C2. On a page whose tab buttons and panes match, after every non-empty sequence
  of clicks on tab buttons the buttons that carry \<open>active\<close> are exactly the button
  clicked last, and the panes that carry \<open>active\<close> are exactly the one pane that this
  button's \<open>data-tab\<close> names: one active button, one visible pane, all others
  deactivated. The captured node lists do not change, and clicking the same button
  once more leaves the page as it is. The clicks change nothing else: every element
  keeps its id, its \<open>data-tab\<close> and its classes other than \<open>active\<close>, and an element
  that is neither a tab button nor a pane is untouched. The pane a button names is
  the first element, in document order, whose id is the button's \<open>data-tab\<close>; the
  empty string names none. The node lists are what \<open>initializeTabs\<close> captures: the
  elements of class \<open>tab-btn\<close> and of class \<open>tab-pane\<close>.
\<close>

theorem tab_clicks_exactly_one_active:
  assumes "tabs_match s" and "list_all (\<lambda>b. b \<in> set (tabBtns s)) clicks" and "clicks \<noteq> []"
  shows "active_nodes (tabBtns s) (elements (run (map TabBtnClick clicks) s)) = [last clicks]
       \<and> (\<exists>p. targetPane s (last clicks) = Some p
              \<and> active_nodes (tabPanes s) (elements (run (map TabBtnClick clicks) s)) = [p])
       \<and> tabBtns (run (map TabBtnClick clicks) s) = tabBtns s
       \<and> tabPanes (run (map TabBtnClick clicks) s) = tabPanes s
       \<and> run (map TabBtnClick (clicks @ [last clicks])) s = run (map TabBtnClick clicks) s
       \<and> only_active_differs (tabBtns s @ tabPanes s) (elements s)
           (elements (run (map TabBtnClick clicks) s))
       \<and> targetPane s btn
           = getElementById
               (case el_dataset_tab (elements s ! btn) of None \<Rightarrow> ''undefined'' | Some t \<Rightarrow> t)
               (elements s)
       \<and> ((getElementById ident es = Some i)
            = (ident \<noteq> [] \<and> i < length es \<and> el_id (es ! i) = Some ident
               \<and> (\<forall>j<i. el_id (es ! j) \<noteq> Some ident)))
       \<and> ((getElementById ident es = None)
            = (ident = [] \<or> (\<forall>i<length es. el_id (es ! i) \<noteq> Some ident)))
       \<and> tabBtns (initializeTabs s0)
           = filter (\<lambda>i. ''tab-btn'' \<in> set (el_classList (elements s0 ! i)))
               [0..<length (elements s0)]
       \<and> tabPanes (initializeTabs s0)
           = filter (\<lambda>i. ''tab-pane'' \<in> set (el_classList (elements s0 ! i)))
               [0..<length (elements s0)]"
proof -
  let ?b = "last clicks"
  let ?s1 = "run (map TabBtnClick (butlast clicks)) s"
  from assms(3) have split: "clicks = butlast clicks @ [?b]" by simp
  from assms(2,3) have b: "?b \<in> set (tabBtns s)"
    by (simp add: list_all_iff)
  from assms(2) have "list_all (\<lambda>b. b \<in> set (tabBtns s)) (butlast clicks)"
    by (auto simp: list_all_iff dest: in_set_butlastD)
  from run_tab_clicks_preserves [OF assms(1) this]
  have tb: "tabBtns ?s1 = tabBtns s" and tps: "tabPanes ?s1 = tabPanes s"
    and tgt: "targetPane ?s1 ?b = targetPane s ?b" and m1: "tabs_match ?s1"
    using b by blast+
  from b tb have b1: "?b \<in> set (tabBtns ?s1)" by simp
  have "run (map TabBtnClick clicks) s = run (map TabBtnClick (butlast clicks @ [?b])) s"
    using split by simp
  also have "\<dots> = step (TabBtnClick ?b) ?s1"
    by (simp add: run_def)
  also have "\<dots> = tabBtn_click ?b ?s1"
    using b1 by simp
  finally have r: "run (map TabBtnClick clicks) s = tabBtn_click ?b ?s1" .
  have "run (map TabBtnClick (clicks @ [?b])) s = step (TabBtnClick ?b) (run (map TabBtnClick clicks) s)"
    by (simp add: run_def)
  also have "\<dots> = tabBtn_click ?b (tabBtn_click ?b ?s1)"
    using b1 tabBtn_click_preserves [OF m1 b1] by (simp add: r)
  also have "\<dots> = tabBtn_click ?b ?s1"
    by (rule tabBtn_click_idem [OF m1 b1])
  finally have idem: "run (map TabBtnClick (clicks @ [?b])) s = run (map TabBtnClick clicks) s"
    by (simp add: r)
  obtain p where "targetPane ?s1 ?b = Some p"
    and "active_nodes (tabBtns ?s1) (elements (tabBtn_click ?b ?s1)) = [?b]"
    and "active_nodes (tabPanes ?s1) (elements (tabBtn_click ?b ?s1)) = [p]"
    using tabBtn_click_active [OF m1 b1] by blast
  then have "active_nodes (tabBtns s) (elements (run (map TabBtnClick clicks) s)) = [?b]"
    and "\<exists>p. targetPane s ?b = Some p
           \<and> active_nodes (tabPanes s) (elements (run (map TabBtnClick clicks) s)) = [p]"
    by (simp_all add: r tb tps tgt)
  moreover have "tabBtns (run (map TabBtnClick clicks) s) = tabBtns s"
    and "tabPanes (run (map TabBtnClick clicks) s) = tabPanes s"
    using tabBtn_click_preserves [OF m1 b1] by (simp_all add: r tb tps)
  moreover have "targetPane s btn
           = getElementById
               (case el_dataset_tab (elements s ! btn) of None \<Rightarrow> ''undefined'' | Some t \<Rightarrow> t)
               (elements s)"
    by (simp add: targetPane_def js_String_def)
  ultimately show ?thesis
    using idem run_tab_clicks_frame [OF assms(1,2)] getElementById_Some [of ident es i]
      getElementById_None [of ident es] initializeTabs_nodes [of s0]
    by blast
qed

theorem tab_clicks_exactly_one_active_witness:
  "tabs_match (page_load 1234 ''0.4fzyo82mvyr'' example_page)
   \<and> list_all (\<lambda>b. b \<in> set (tabBtns (page_load 1234 ''0.4fzyo82mvyr'' example_page))) [1, 0, 1]
   \<and> [1, 0, 1] \<noteq> ([] :: nat list)
   \<and> active_nodes (tabBtns (page_load 1234 ''0.4fzyo82mvyr'' example_page))
        (elements (run (map TabBtnClick [1, 0, 1]) (page_load 1234 ''0.4fzyo82mvyr'' example_page)))
       = [1]
   \<and> active_nodes (tabPanes (page_load 1234 ''0.4fzyo82mvyr'' example_page))
        (elements (run (map TabBtnClick [1, 0, 1]) (page_load 1234 ''0.4fzyo82mvyr'' example_page)))
       = [3]"
proof -
  let ?s = "page_load 1234 ''0.4fzyo82mvyr'' example_page"
  have els: "elements ?s = elements example_page"
    by (simp add: page_load_def initializeTabs_def)
  have tb: "tabBtns ?s = [0, 1]"
    by (simp add: page_load_def initializeTabs_def querySelectorAll_class_def example_page_def
          upt_conv_Cons)
  have tps: "tabPanes ?s = [2, 3]"
    by (simp add: page_load_def initializeTabs_def querySelectorAll_class_def example_page_def
          upt_conv_Cons)
  have ex: "elements example_page =
      [\<lparr>el_id = None, el_classList = [''tab-btn'', ''active''], el_dataset_tab = Some ''analyze''\<rparr>,
       \<lparr>el_id = None, el_classList = [''tab-btn''], el_dataset_tab = Some ''chat''\<rparr>,
       \<lparr>el_id = Some ''analyze'', el_classList = [''tab-pane'', ''active''], el_dataset_tab = None\<rparr>,
       \<lparr>el_id = Some ''chat'', el_classList = [''tab-pane''], el_dataset_tab = None\<rparr>]"
    by (simp add: example_page_def)
  have t0: "targetPane ?s 0 = Some 2" and t1: "targetPane ?s (Suc 0) = Some 3"
    by (simp_all add: targetPane_def getElementById_def els ex js_String_def upt_conv_Cons)
  have m: "tabs_match ?s"
    by (simp add: tabs_match_def tb tps t0 t1 els ex)
  have l: "list_all (\<lambda>b. b \<in> set (tabBtns ?s)) [1, 0, 1]"
    by (simp add: tb)
  have n: "[1, 0, 1] \<noteq> ([] :: nat list)"
    by simp
  from tab_clicks_exactly_one_active [OF m l n] m l t1
  show ?thesis by simp
qed

text \<open>
  Without the match the click takes its error path. On the page whose button has an
  empty \<open>data-tab\<close> the lookup finds nothing, although the pane's \<open>id\<close> is empty too:
  the handler throws after it has deactivated the pane and activated the button, and
  no pane is left active.
\<close>

lemma tabBtn_click_empty_target:
  "tabBtns empty_target_page = [0]
   \<and> tabPanes empty_target_page = [1]
   \<and> targetPane empty_target_page 0 = None
   \<and> \<not> tabs_match empty_target_page
   \<and> active_nodes (tabBtns empty_target_page) (elements (tabBtn_click 0 empty_target_page)) = [0]
   \<and> active_nodes (tabPanes empty_target_page) (elements (tabBtn_click 0 empty_target_page)) = []
   \<and> effects (tabBtn_click 0 empty_target_page)
       = [Uncaught (TypeError ''Cannot read properties of null (reading classList)'')]"
proof -
  have tb: "tabBtns empty_target_page = [0]" and tps: "tabPanes empty_target_page = [1]"
    and els: "elements empty_target_page =
             [\<lparr>el_id = None, el_classList = [''tab-btn''], el_dataset_tab = Some []\<rparr>,
              \<lparr>el_id = Some [], el_classList = [''tab-pane'', ''active''], el_dataset_tab = None\<rparr>]"
    and eff: "effects empty_target_page = []"
    by (simp_all add: empty_target_page_def initializeTabs_def querySelectorAll_class_def
          upt_conv_Cons example_page_def)
  have tp: "targetPane empty_target_page 0 = None"
    by (simp add: targetPane_def els js_String_def getElementById_def)
  have nm: "\<not> tabs_match empty_target_page"
    by (simp add: tabs_match_def tb tp)
  have click: "tabBtn_click 0 empty_target_page
      = emit (Uncaught (TypeError ''Cannot read properties of null (reading classList)''))
          (empty_target_page
             \<lparr>elements :=
                [\<lparr>el_id = None, el_classList = [''tab-btn'', ''active''], el_dataset_tab = Some []\<rparr>,
                 \<lparr>el_id = Some [], el_classList = [''tab-pane''], el_dataset_tab = None\<rparr>]\<rparr>)"
    by (simp add: tabBtn_click_def Let_def tb tps els js_String_def getElementById_def
          forEach_def classList_remove_def classList_add_def)
  show ?thesis
    by (simp add: tb tps tp nm click emit_def eff active_nodes_def)
qed

subsection \<open>Selecting an image\<close>

text \<open>
  The \<open>drop\<close> handler tests the file's declared type: a file whose type does not start
  with \<open>image/\<close> is ignored (only \<open>preventDefault\<close> is called), an image is handed to
  \<open>handleImageSelect\<close>. The \<open>change\<close> handler of the file picker hands over whatever
  file comes first, without a test. When the read has finished, the preview is shown
  and the analyze button is enabled.
\<close>

lemma uploadArea_drop_non_image_ignored:
  assumes "\<not> startsWith (file_type f) ''image/''"
  shows "uploadArea_drop (f # fs) s = emit PreventDefault s
       \<and> uploadArea_drop [] s = emit PreventDefault s
       \<and> filter (\<lambda>e. e \<noteq> PreventDefault) (effects_since s (uploadArea_drop (f # fs) s)) = []
       \<and> imagePreview_display (uploadArea_drop (f # fs) s) = imagePreview_display s
       \<and> analyzeBtn_disabled (uploadArea_drop (f # fs) s) = analyzeBtn_disabled s"
  using assms by (simp add: uploadArea_drop_def Let_def emit_def effects_since_def)

lemma uploadArea_drop_image_accepted:
  assumes "startsWith (file_type f) ''image/''"
  shows "uploadArea_drop (f # fs) s = handleImageSelect f (emit PreventDefault s)
       \<and> effects_since s (uploadArea_drop (f # fs) s) = [PreventDefault, ReadAsDataURL f]"
  using assms by (simp add: uploadArea_drop_def Let_def emit_def effects_since_def handleImageSelect_def)

lemma imageInput_change_any_type:
  "step (ImageInputChange (f # fs)) s = handleImageSelect f (s\<lparr>imageInput_files := f # fs\<rparr>)
   \<and> effects_since s (step (ImageInputChange (f # fs)) s) = [ReadAsDataURL f]"
  by (simp add: imageInput_change_def handleImageSelect_def emit_def effects_since_def)

lemma reader_onload_preview:
  "previewImg_src (reader_onload result s) = result
   \<and> imagePreview_display (reader_onload result s) = ''block''
   \<and> uploadArea_display (reader_onload result s) = ''none''
   \<and> \<not> analyzeBtn_disabled (reader_onload result s)"
  by (simp add: reader_onload_def)

text \<open>
  Claim C3, at the input where the script departs from it: a file of type
  \<open>text/plain\<close> chosen through the file picker on the example page, where no preview is
  shown and the analyze button is disabled. The \<open>change\<close> handler starts reading the
  file, and when the read has finished the preview is displayed with the file's data
  URL and the analyze button is enabled. The same file dropped on the upload area is
  ignored.
\<close>

theorem imageInput_change_accepts_non_image:
  "\<not> startsWith (file_type example_text_file) ''image/''
   \<and> analyzeBtn_disabled example_page
   \<and> imagePreview_display example_page = ''none''
   \<and> effects (step (ImageInputChange [example_text_file]) example_page)
       = [ReadAsDataURL example_text_file]
   \<and> \<not> analyzeBtn_disabled
         (step (ReaderLoad ''data:text/plain;base64,aGk='')
            (step (ImageInputChange [example_text_file]) example_page))
   \<and> imagePreview_display
         (step (ReaderLoad ''data:text/plain;base64,aGk='')
            (step (ImageInputChange [example_text_file]) example_page)) = ''block''
   \<and> previewImg_src
         (step (ReaderLoad ''data:text/plain;base64,aGk='')
            (step (ImageInputChange [example_text_file]) example_page))
       = ''data:text/plain;base64,aGk=''
   \<and> step (UploadAreaDrop [example_text_file]) example_page = emit PreventDefault example_page"
proof -
  have t: "\<not> startsWith (file_type example_text_file) ''image/''"
    by (simp add: startsWith_def example_text_file_def)
  have p: "analyzeBtn_disabled example_page \<and> imagePreview_display example_page = ''none''
      \<and> effects example_page = []"
    by (simp add: example_page_def)
  have c: "effects (step (ImageInputChange [example_text_file]) example_page)
       = [ReadAsDataURL example_text_file]"
    using imageInput_change_any_type [of example_text_file "[]" example_page] p
    by (simp add: effects_since_def handleImageSelect_def emit_def)
  show ?thesis
    using t p c uploadArea_drop_non_image_ignored [OF t, of "[]" example_page]
    by (simp add: reader_onload_preview)
qed

end
